theory Spec2Isabelle
  imports Main "HOL-Library.Log_Nat"
begin

section \<open>JavaScript numbers\<close>

text \<open>
  Every \<^verbatim>\<open>number\<close> of the service is an IEEE 754 binary64 value. A finite one is a
  dyadic rational: \<open>Finite n k\<close> stands for \<open>n / 2 ^ k\<close> in lowest terms, so that
  \<open>Finite n 0\<close> is the integer \<open>n\<close>. The sign of zero is left out: no operation of
  the service observes it.
\<close>

datatype number = Finite int nat | PosInf | NegInf | NaN

fun lowest :: "int \<Rightarrow> nat \<Rightarrow> number" where
  "lowest n 0 = Finite n 0"
| "lowest n (Suc k) = (if even n then lowest (n div 2) k else Finite n (Suc k))"

definition inf_of_sign :: "int \<Rightarrow> number" where
  "inf_of_sign n = (if n < 0 then NegInf else PosInf)"

text \<open>
  \<open>fl n k\<close> is the binary64 value nearest to \<open>n / 2 ^ k\<close>, ties to the even
  significand: 53 significant bits, the unit in the last place \<open>2 ^ u\<close> never below
  \<open>2 ^ -1074\<close> (subnormal range), overflow to an infinity from \<open>2 ^ 1024\<close> on.
  \<open>round_half_even a sh\<close> drops the low \<open>sh\<close> bits of \<open>a\<close>.
\<close>

definition round_half_even :: "int \<Rightarrow> nat \<Rightarrow> int" where
  "round_half_even a sh =
     (let d = 2 ^ sh; q = a div d; r = a mod d; h = d div 2
      in if h < r \<or> (r = h \<and> odd q) then q + 1 else q)"

definition fl :: "int \<Rightarrow> nat \<Rightarrow> number" where
  "fl n k =
     (let a = \<bar>n\<bar>;
          u = max (bitlen a - int k - 53) (- 1074);
          sh = u + int k
      in if sh \<le> 0 then lowest n k
         else
           let q' = round_half_even a (nat sh)
           in if 0 \<le> u
              then (if 2 ^ 1024 \<le> q' * 2 ^ nat u then inf_of_sign n
                    else Finite (sgn n * q' * 2 ^ nat u) 0)
              else lowest (sgn n * q') (nat (- u)))"

fun num_mul :: "number \<Rightarrow> number \<Rightarrow> number" where
  "num_mul (Finite a j) (Finite b k) = fl (a * b) (j + k)"
| "num_mul NaN _ = NaN"
| "num_mul _ NaN = NaN"
| "num_mul (Finite a j) PosInf = (if a = 0 then NaN else inf_of_sign a)"
| "num_mul (Finite a j) NegInf = (if a = 0 then NaN else inf_of_sign (- a))"
| "num_mul PosInf (Finite b k) = (if b = 0 then NaN else inf_of_sign b)"
| "num_mul NegInf (Finite b k) = (if b = 0 then NaN else inf_of_sign (- b))"
| "num_mul PosInf PosInf = PosInf"
| "num_mul PosInf NegInf = NegInf"
| "num_mul NegInf PosInf = NegInf"
| "num_mul NegInf NegInf = PosInf"

fun num_add :: "number \<Rightarrow> number \<Rightarrow> number" where
  "num_add (Finite a j) (Finite b k) =
     fl (a * 2 ^ (max j k - j) + b * 2 ^ (max j k - k)) (max j k)"
| "num_add NaN _ = NaN"
| "num_add _ NaN = NaN"
| "num_add PosInf NegInf = NaN"
| "num_add NegInf PosInf = NaN"
| "num_add PosInf _ = PosInf"
| "num_add _ PosInf = PosInf"
| "num_add NegInf _ = NegInf"
| "num_add _ NegInf = NegInf"

fun Math_floor :: "number \<Rightarrow> number" where
  "Math_floor (Finite n k) = Finite (n div 2 ^ k) 0"
| "Math_floor x = x"

fun Number_isInteger :: "number \<Rightarrow> bool" where
  "Number_isInteger (Finite n k) = (k = 0)"
| "Number_isInteger _ = False"

text \<open>The comparisons \<^verbatim>\<open>x <= 0\<close> and \<^verbatim>\<open>x < 1\<close> of the validation.\<close>

fun le_zero :: "number \<Rightarrow> bool" where
  "le_zero (Finite n k) = (n \<le> 0)"
| "le_zero NegInf = True"
| "le_zero _ = False"

fun lt_one :: "number \<Rightarrow> bool" where
  "lt_one (Finite n k) = (n < 2 ^ k)"
| "lt_one NegInf = True"
| "lt_one _ = False"

text \<open>The literal \<^verbatim>\<open>0.08\<close>: the binary64 value \<open>0x1.47ae147ae147bp-4\<close>.\<close>

definition lit_0_08 :: number where
  "lit_0_08 = Finite 5764607523034235 56"

section \<open>Types (types.ts)\<close>

record CheckoutItem =
  productId :: string
  name :: string
  unitPrice :: number
  quantity :: number

record CheckoutRequest =
  cartId :: string
  customerId :: string
  items :: "CheckoutItem list"

record OrderItem = CheckoutItem +
  lineTotal :: number

record Order =
  orderId :: string
  cartId :: string
  customerId :: string
  items :: "OrderItem list"
  subtotal :: number
  tax :: number
  total :: number
  status :: string
  createdAt :: string

section \<open>Pricing (pricing.ts)\<close>

record PricingResult =
  items :: "OrderItem list"
  subtotal :: number
  tax :: number
  total :: number

text \<open>The arrow function mapped over the items: the item with its \<^verbatim>\<open>lineTotal\<close>.\<close>

definition priced :: "CheckoutItem \<Rightarrow> OrderItem" where
  "priced item = CheckoutItem.extend item
                   (OrderItem.fields (num_mul (unitPrice item) (quantity item)))"

definition calculatePricing :: "CheckoutItem list \<Rightarrow> PricingResult" where
  "calculatePricing its =
     (let orderItems = map priced its;
          subtotal = foldl (\<lambda>sum item. num_add sum (lineTotal item)) (Finite 0 0) orderItems;
          tax = Math_floor (num_mul subtotal lit_0_08);
          total = num_add subtotal tax
      in \<lparr>PricingResult.items = orderItems, PricingResult.subtotal = subtotal,
          PricingResult.tax = tax, PricingResult.total = total\<rparr>)"

section \<open>Parsed request bodies\<close>

text \<open>
  The value \<^verbatim>\<open>JSON.parse\<close> returns. An object is the list of its own properties, each
  key once; \<open>get_prop raw key\<close> is the read \<^verbatim>\<open>raw[key]\<close>, \<open>None\<close> for \<^verbatim>\<open>undefined\<close>.
\<close>

datatype json =
  JNull | JBool bool | JNum number | JStr string | JArr "json list" | JObj "(string \<times> json) list"

definition get_prop :: "(string \<times> json) list \<Rightarrow> string \<Rightarrow> json option" where
  "get_prop raw key = map_of raw key"

text \<open>The run-time type tests of the validation, each returning the value it admits.\<close>

fun as_object :: "json \<Rightarrow> (string \<times> json) list option" where
  "as_object (JObj raw) = Some raw"
| "as_object _ = None"

fun as_string :: "json option \<Rightarrow> string option" where
  "as_string (Some (JStr s)) = Some s"
| "as_string _ = None"

fun as_array :: "json option \<Rightarrow> json list option" where
  "as_array (Some (JArr xs)) = Some xs"
| "as_array _ = None"

fun as_number :: "json option \<Rightarrow> number option" where
  "as_number (Some (JNum x)) = Some x"
| "as_number _ = None"

section \<open>Regular expressions, as far as \<^verbatim>\<open>UUID_RE\<close> needs them\<close>

text \<open>
  A pattern anchored at both ends (\<^verbatim>\<open>^...$\<close>, no multiline flag) whose terms are single
  characters and character classes with an exact repetition count. Under the flag
  \<^verbatim>\<open>i\<close> two characters match when their canonical forms (upper case) agree. A
  \<open>string\<close> is a list of 8-bit characters; a character outside ASCII has no canonical
  form inside ASCII, so it is its own canonical form here.
\<close>

datatype re_term = Class "(char \<times> char) list" nat | Lit char

record RegExp =
  terms :: "re_term list"
  ignoreCase :: bool

definition canonicalize :: "bool \<Rightarrow> char \<Rightarrow> char" where
  "canonicalize ci c =
     (if ci \<and> (97::nat) \<le> of_char c \<and> of_char c \<le> (122::nat)
      then char_of (of_char c - (32::nat)) else c)"

definition class_chars :: "(char \<times> char) list \<Rightarrow> char list" where
  "class_chars rs =
     concat (map (\<lambda>(lo, hi). map char_of [of_char lo ..< Suc (of_char hi)]) rs)"

definition class_match :: "bool \<Rightarrow> (char \<times> char) list \<Rightarrow> char \<Rightarrow> bool" where
  "class_match ci rs x =
     list_ex (\<lambda>c. canonicalize ci c = canonicalize ci x) (class_chars rs)"

fun re_match :: "bool \<Rightarrow> re_term list \<Rightarrow> string \<Rightarrow> bool" where
  "re_match ci [] s = (s = [])"
| "re_match ci (Lit c # ts) s =
     (case s of [] \<Rightarrow> False
      | x # xs \<Rightarrow> canonicalize ci x = canonicalize ci c \<and> re_match ci ts xs)"
| "re_match ci (Class rs 0 # ts) s = re_match ci ts s"
| "re_match ci (Class rs (Suc n) # ts) s =
     (case s of [] \<Rightarrow> False
      | x # xs \<Rightarrow> class_match ci rs x \<and> re_match ci (Class rs n # ts) xs)"

definition RegExp_test :: "RegExp \<Rightarrow> string \<Rightarrow> bool" where
  "RegExp_test re s = re_match (ignoreCase re) (terms re) s"

section \<open>Validation (checkout.ts)\<close>

definition hex_class :: "(char \<times> char) list" where
  "hex_class = [(CHR ''0'', CHR ''9''), (CHR ''a'', CHR ''f'')]"

definition UUID_RE :: RegExp where
  "UUID_RE =
     \<lparr>terms = [Class hex_class 8, Lit CHR ''-'', Class hex_class 4, Lit CHR ''-'',
               Class hex_class 4, Lit CHR ''-'', Class hex_class 4, Lit CHR ''-'',
               Class hex_class 12],
      ignoreCase = True\<rparr>"

datatype validation = Ok_true CheckoutRequest | Ok_false string

text \<open>
  The body of the loop over the items: the first failed check gives the message. The cast
  to \<^verbatim>\<open>CheckoutItem\<close> keeps the four fields of the type; further properties of an item,
  which the code carries along unread, are left out.
\<close>

definition validateItem :: "json \<Rightarrow> string + CheckoutItem" where
  "validateItem item =
     (case as_object item of
        None \<Rightarrow> Inl ''Each item must be an object''
      | Some i \<Rightarrow>
     (case as_string (get_prop i ''productId'') of
        None \<Rightarrow> Inl ''Each item must have a productId''
      | Some p \<Rightarrow>
     if p = [] then Inl ''Each item must have a productId'' else
     (case as_string (get_prop i ''name'') of
        None \<Rightarrow> Inl ''Each item must have a name''
      | Some nm \<Rightarrow>
     if nm = [] then Inl ''Each item must have a name'' else
     (case as_number (get_prop i ''unitPrice'') of
        None \<Rightarrow> Inl ''unitPrice must be a positive integer (cents)''
      | Some u \<Rightarrow>
     if \<not> Number_isInteger u \<or> le_zero u
     then Inl ''unitPrice must be a positive integer (cents)'' else
     (case as_number (get_prop i ''quantity'') of
        None \<Rightarrow> Inl ''quantity must be an integer >= 1''
      | Some q \<Rightarrow>
     if \<not> Number_isInteger q \<or> lt_one q
     then Inl ''quantity must be an integer >= 1''
     else Inr \<lparr>productId = p, name = nm, unitPrice = u, quantity = q\<rparr>)))))"

fun validateItems :: "json list \<Rightarrow> string + CheckoutItem list" where
  "validateItems [] = Inr []"
| "validateItems (item # rest) =
     (case validateItem item of
        Inl message \<Rightarrow> Inl message
      | Inr it \<Rightarrow>
          (case validateItems rest of
             Inl message \<Rightarrow> Inl message
           | Inr its \<Rightarrow> Inr (it # its)))"

definition validateRequest :: "json \<Rightarrow> validation" where
  "validateRequest body =
     (case as_object body of
        None \<Rightarrow> Ok_false ''Request body must be a JSON object''
      | Some raw \<Rightarrow>
     (case as_string (get_prop raw ''cartId'') of
        None \<Rightarrow> Ok_false ''Missing or invalid cartId''
      | Some cid \<Rightarrow>
     if cid = [] then Ok_false ''Missing or invalid cartId'' else
     if \<not> RegExp_test UUID_RE cid then Ok_false ''cartId must be a valid UUID'' else
     (case as_string (get_prop raw ''customerId'') of
        None \<Rightarrow> Ok_false ''Missing or invalid customerId''
      | Some cust \<Rightarrow>
     if cust = [] then Ok_false ''Missing or invalid customerId'' else
     (case as_array (get_prop raw ''items'') of
        None \<Rightarrow> Ok_false ''Cart is empty''
      | Some its \<Rightarrow>
     if length its = 0 then Ok_false ''Cart is empty'' else
     (case validateItems its of
        Inl message \<Rightarrow> Ok_false message
      | Inr checked \<Rightarrow>
          Ok_true \<lparr>CheckoutRequest.cartId = cid, CheckoutRequest.customerId = cust,
                   CheckoutRequest.items = checked\<rparr>)))))"


section \<open>The platform\<close>

text \<open>
  What the service calls and does not define: \<^verbatim>\<open>JSON.parse\<close> (\<open>None\<close> when it throws),
  \<^verbatim>\<open>randomUUID()\<close>, \<^verbatim>\<open>new Date().toISOString()\<close>, and the DynamoDB client, whose
  \<^verbatim>\<open>send\<close> either returns or throws. \<open>'w\<close> is the state of the world outside the
  handler, the table included.
\<close>

datatype exn = ConditionalCheckFailedException string | Error string | Other_exception string string

text \<open>
  \<^verbatim>\<open>String(err)\<close> for an error object: its name and its message joined by a colon and a
  space, the message alone when the name is empty, the name alone when the message is.
\<close>

definition Error_toString :: "string \<Rightarrow> string \<Rightarrow> string" where
  "Error_toString nm msg =
     (if nm = [] then msg else if msg = [] then nm else nm @ '': '' @ msg)"

fun String_exn :: "exn \<Rightarrow> string" where
  "String_exn (ConditionalCheckFailedException m) =
     Error_toString ''ConditionalCheckFailedException'' m"
| "String_exn (Error m) = Error_toString ''Error'' m"
| "String_exn (Other_exception n m) = Error_toString n m"

record 'w platform =
  JSON_parse :: "string \<Rightarrow> json option"
  randomUUID :: "'w \<Rightarrow> string \<times> 'w"
  toISOString_now :: "'w \<Rightarrow> string \<times> 'w"
  send_Get :: "string \<Rightarrow> 'w \<Rightarrow> (exn + Order option) \<times> 'w"
  send_Put :: "Order \<Rightarrow> 'w \<Rightarrow> (exn + unit) \<times> 'w"

text \<open>
  A log line; of the fields of \<^verbatim>\<open>LogEntry\<close>, \<^verbatim>\<open>durationMs\<close> (a difference of two clock
  reads) is left out.
\<close>

record LogEntry =
  level :: string
  action :: string
  cartId :: "string option"
  orderId :: "string option"
  total :: "number option"
  error :: "string option"

text \<open>
  What one run of the handler does to the outside, in order: the commands sent to the
  table with their outcomes, the calls of \<^verbatim>\<open>capturePayment\<close>, the log lines.
\<close>

datatype event =
  Client_Get string "exn + Order option"
| Client_Put Order "exn + unit"
| Capture_call string number
| Console_log LogEntry

section \<open>Repository (repository.ts)\<close>

definition getOrderByCartId ::
  "'w platform \<Rightarrow> string \<Rightarrow> 'w \<Rightarrow> (exn + Order option) \<times> 'w \<times> event list" where
  "getOrderByCartId P cid w =
     (case send_Get P cid w of (r, w') \<Rightarrow> (r, w', [Client_Get cid r]))"

record CreateOrderResult =
  created :: bool
  order :: Order

definition createOrder ::
  "'w platform \<Rightarrow> Order \<Rightarrow> 'w \<Rightarrow> (exn + CreateOrderResult) \<times> 'w \<times> event list" where
  "createOrder P ord w =
     (case send_Put P ord w of
        (Inr u, w1) \<Rightarrow> (Inr \<lparr>created = True, order = ord\<rparr>, w1, [Client_Put ord (Inr u)])
      | (Inl err, w1) \<Rightarrow>
          (case err of
             ConditionalCheckFailedException m \<Rightarrow>
               (case getOrderByCartId P (Order.cartId ord) w1 of
                  (Inl e, w2, evs) \<Rightarrow> (Inl e, w2, Client_Put ord (Inl err) # evs)
                | (Inr None, w2, evs) \<Rightarrow>
                    (Inl (Error (''Idempotency check failed: order for cartId ''
                                 @ Order.cartId ord @ '' not found after conflict'')),
                     w2, Client_Put ord (Inl err) # evs)
                | (Inr (Some existing), w2, evs) \<Rightarrow>
                    (Inr \<lparr>created = False, order = existing\<rparr>, w2,
                     Client_Put ord (Inl err) # evs))
           | _ \<Rightarrow> (Inl err, w1, [Client_Put ord (Inl err)])))"

section \<open>Handler (checkout.ts)\<close>

definition capturePayment :: "string \<Rightarrow> number \<Rightarrow> event list" where
  "capturePayment oid tot =
     [Capture_call oid tot,
      Console_log \<lparr>level = ''info'', action = ''payment.capture'', LogEntry.cartId = None,
                   LogEntry.orderId = Some oid, LogEntry.total = Some tot, error = None\<rparr>]"

text \<open>The response body is the value handed to \<^verbatim>\<open>JSON.stringify\<close>.\<close>

datatype response_body = Order_body Order | Error_body string string

record APIGatewayProxyResult =
  statusCode :: nat
  headers :: "(string \<times> string) list"
  body :: response_body

definition ok :: "Order \<Rightarrow> APIGatewayProxyResult" where
  "ok b = \<lparr>statusCode = 200, headers = [(''Content-Type'', ''application/json'')],
           body = Order_body b\<rparr>"

definition validationError :: "string \<Rightarrow> APIGatewayProxyResult" where
  "validationError message =
     \<lparr>statusCode = 400, headers = [(''Content-Type'', ''application/json'')],
      body = Error_body ''VALIDATION_ERROR'' message\<rparr>"

definition internalError :: APIGatewayProxyResult where
  "internalError =
     \<lparr>statusCode = 500, headers = [(''Content-Type'', ''application/json'')],
      body = Error_body ''INTERNAL_ERROR'' ''An unexpected error occurred''\<rparr>"

definition log_checkout :: "string \<Rightarrow> string \<Rightarrow> string option \<Rightarrow> event" where
  "log_checkout act cid oid =
     Console_log \<lparr>level = ''info'', action = act, LogEntry.cartId = Some cid,
                  LogEntry.orderId = oid, LogEntry.total = None, error = None\<rparr>"

text \<open>Step 4: the order record built from the request and its pricing.\<close>

definition new_order :: "CheckoutRequest \<Rightarrow> PricingResult \<Rightarrow> string \<Rightarrow> string \<Rightarrow> Order" where
  "new_order req pricing uuid now =
     \<lparr>Order.orderId = uuid, Order.cartId = CheckoutRequest.cartId req,
      Order.customerId = CheckoutRequest.customerId req,
      Order.items = PricingResult.items pricing,
      Order.subtotal = PricingResult.subtotal pricing,
      Order.tax = PricingResult.tax pricing,
      Order.total = PricingResult.total pricing,
      status = ''CONFIRMED'', createdAt = now\<rparr>"

text \<open>Steps 3 to 6 of the handler: what runs inside \<^verbatim>\<open>try\<close> once the request is valid.\<close>

definition checkout ::
  "'w platform \<Rightarrow> CheckoutRequest \<Rightarrow> 'w \<Rightarrow> (exn + APIGatewayProxyResult) \<times> 'w \<times> event list" where
  "checkout P req w =
     (let cid = CheckoutRequest.cartId req;
          start = log_checkout ''checkout.start'' cid None
      in case getOrderByCartId P cid w of
           (Inl e, w1, ev1) \<Rightarrow> (Inl e, w1, start # ev1)
         | (Inr (Some existing), w1, ev1) \<Rightarrow>
             (Inr (ok existing), w1,
              start # ev1 @ [log_checkout ''checkout.duplicate'' cid (Some (Order.orderId existing))])
         | (Inr None, w1, ev1) \<Rightarrow>
             (let pricing = calculatePricing (CheckoutRequest.items req)
              in case randomUUID P w1 of (uuid, w2) \<Rightarrow>
                 case toISOString_now P w2 of (now, w3) \<Rightarrow>
                 (let ord = new_order req pricing uuid now
                  in case createOrder P ord w3 of
                       (Inl e, w4, ev2) \<Rightarrow> (Inl e, w4, start # ev1 @ ev2)
                     | (Inr result, w4, ev2) \<Rightarrow>
                         if \<not> created result
                         then (Inr (ok (order result)), w4,
                               start # ev1 @ ev2 @
                               [log_checkout ''checkout.duplicate'' cid
                                  (Some (Order.orderId (order result)))])
                         else (Inr (ok ord), w4,
                               start # ev1 @ ev2 @
                               capturePayment (Order.orderId ord) (Order.total ord) @
                               [log_checkout ''checkout.complete'' cid
                                  (Some (Order.orderId ord))]))))"

definition log_error :: "string \<Rightarrow> exn \<Rightarrow> event" where
  "log_error cid err =
     Console_log \<lparr>level = ''error'', action = ''checkout.error'', LogEntry.cartId = Some cid,
                  LogEntry.orderId = None, LogEntry.total = None,
                  error = Some (String_exn err)\<rparr>"

definition handler ::
  "'w platform \<Rightarrow> string option \<Rightarrow> 'w \<Rightarrow> APIGatewayProxyResult \<times> 'w \<times> event list" where
  "handler P event_body w =
     (case JSON_parse P (case event_body of None \<Rightarrow> [] | Some s \<Rightarrow> s) of
        None \<Rightarrow> (validationError ''Invalid JSON body'', w, [])
      | Some b \<Rightarrow>
          (case validateRequest b of
             Ok_false message \<Rightarrow> (validationError message, w, [])
           | Ok_true req \<Rightarrow>
               (case checkout P req w of
                  (Inr res, w', evs) \<Rightarrow> (res, w', evs)
                | (Inl err, w', evs) \<Rightarrow>
                    (internalError, w', evs @ [log_error (CheckoutRequest.cartId req) err]))))"

section \<open>An in-memory table\<close>

text \<open>
  Modelled from the spec: the DynamoDB table behind \<^verbatim>\<open>client.send\<close> is not part of the
  repository. A table holds at most one record for each \<^verbatim>\<open>cartId\<close>; a read returns it; the
  conditional write (\<^verbatim>\<open>attribute_not_exists(cartId)\<close>) inserts only if no record exists for
  the key and fails with \<^verbatim>\<open>ConditionalCheckFailedException\<close> otherwise.
\<close>

type_synonym table = "(string \<times> Order) list"

definition table_Get :: "string \<Rightarrow> table \<Rightarrow> (exn + Order option) \<times> table" where
  "table_Get cid t = (Inr (map_of t cid), t)"

definition table_Put :: "Order \<Rightarrow> table \<Rightarrow> (exn + unit) \<times> table" where
  "table_Put ord t =
     (case map_of t (Order.cartId ord) of
        None \<Rightarrow> (Inr (), (Order.cartId ord, ord) # t)
      | Some _ \<Rightarrow> (Inl (ConditionalCheckFailedException ''The conditional request failed''), t))"

definition table_platform :: "(string \<Rightarrow> json option) \<Rightarrow> string \<Rightarrow> string \<Rightarrow> table platform" where
  "table_platform parse uuid now =
     \<lparr>JSON_parse = parse, randomUUID = (\<lambda>t. (uuid, t)), toISOString_now = (\<lambda>t. (now, t)),
      send_Get = table_Get, send_Put = table_Put\<rparr>"


section \<open>Vocabulary of the properties\<close>

text \<open>
  The integer an integer-valued number stands for (its floor in general; infinities and
  \<open>NaN\<close> stand for no integer and are given 0).
\<close>

fun int_of :: "number \<Rightarrow> int" where
  "int_of (Finite n k) = n div 2 ^ k"
| "int_of _ = 0"

fun positive_integer :: "number \<Rightarrow> bool" where
  "positive_integer (Finite n k) = (k = 0 \<and> 0 < n)"
| "positive_integer _ = False"

fun nonneg_integer :: "number \<Rightarrow> bool" where
  "nonneg_integer (Finite n k) = (k = 0 \<and> 0 \<le> n)"
| "nonneg_integer _ = False"

text \<open>
  A valid item list: not empty, every \<^verbatim>\<open>unitPrice\<close> a positive integer, every
  \<^verbatim>\<open>quantity\<close> an integer from 1 on.
\<close>

definition valid_item :: "CheckoutItem \<Rightarrow> bool" where
  "valid_item it = (positive_integer (unitPrice it) \<and> positive_integer (quantity it))"

definition valid_items :: "CheckoutItem list \<Rightarrow> bool" where
  "valid_items its = (its \<noteq> [] \<and> list_all valid_item its)"

text \<open>The figures of a cart in exact integer arithmetic.\<close>

definition exact_lineTotal :: "CheckoutItem \<Rightarrow> int" where
  "exact_lineTotal it = int_of (unitPrice it) * int_of (quantity it)"

definition exact_subtotal :: "CheckoutItem list \<Rightarrow> int" where
  "exact_subtotal its = sum_list (map exact_lineTotal its)"

definition exact_tax :: "int \<Rightarrow> int" where
  "exact_tax s = s * 8 div 100"

text \<open>
  The UUID shape in the words of the specification: 36 characters, hyphens at positions
  8, 13, 18 and 23, hexadecimal digits of either case everywhere else (8-4-4-4-12).
\<close>

definition is_hex_digit :: "char \<Rightarrow> bool" where
  "is_hex_digit c = (c \<in> set ''0123456789abcdefABCDEF'')"

definition uuid_shape :: "string \<Rightarrow> bool" where
  "uuid_shape s =
     (length s = 36 \<and>
      list_all is_hex_digit (take 8 s) \<and> s ! 8 = CHR ''-'' \<and>
      list_all is_hex_digit (take 4 (drop 9 s)) \<and> s ! 13 = CHR ''-'' \<and>
      list_all is_hex_digit (take 4 (drop 14 s)) \<and> s ! 18 = CHR ''-'' \<and>
      list_all is_hex_digit (take 4 (drop 19 s)) \<and> s ! 23 = CHR ''-'' \<and>
      list_all is_hex_digit (drop 24 s))"

text \<open>The character code of the canonical form of a character with code \<open>n\<close>.\<close>

definition canon_code :: "nat \<Rightarrow> nat" where
  "canon_code n = (if 97 \<le> n \<and> n \<le> 122 then n - 32 else n)"

text \<open>
  The defects of a request body: the field read \<^verbatim>\<open>body[key]\<close> (nothing when the body is no
  object), an item whose \<^verbatim>\<open>unitPrice\<close> is a number not above 0, an item whose
  \<^verbatim>\<open>quantity\<close> is a number below 1.
\<close>

fun field :: "json \<Rightarrow> string \<Rightarrow> json option" where
  "field (JObj raw) key = get_prop raw key"
| "field _ key = None"

fun unitPrice_nonpositive :: "json \<Rightarrow> bool" where
  "unitPrice_nonpositive (JObj i) =
     (case as_number (get_prop i ''unitPrice'') of Some u \<Rightarrow> le_zero u | None \<Rightarrow> False)"
| "unitPrice_nonpositive _ = False"

fun quantity_below_one :: "json \<Rightarrow> bool" where
  "quantity_below_one (JObj i) =
     (case as_number (get_prop i ''quantity'') of Some q \<Rightarrow> lt_one q | None \<Rightarrow> False)"
| "quantity_below_one _ = False"

definition has_item :: "(json \<Rightarrow> bool) \<Rightarrow> json \<Rightarrow> bool" where
  "has_item bad b =
     (case as_array (field b ''items'') of Some its \<Rightarrow> list_ex bad its | None \<Rightarrow> False)"

definition item_messages :: "string list" where
  "item_messages =
     [''Each item must be an object'', ''Each item must have a productId'',
      ''Each item must have a name'', ''unitPrice must be a positive integer (cents)'',
      ''quantity must be an integer >= 1'']"

definition validation_messages :: "string list" where
  "validation_messages =
     [''Request body must be a JSON object'', ''Missing or invalid cartId'',
      ''cartId must be a valid UUID'', ''Missing or invalid customerId'', ''Cart is empty'',
      ''Each item must be an object'', ''Each item must have a productId'',
      ''Each item must have a name'', ''unitPrice must be a positive integer (cents)'',
      ''quantity must be an integer >= 1'']"

text \<open>
  Reading a trace: calls of \<^verbatim>\<open>capturePayment\<close>, writes the table accepted or refused, reads
  that found a record. \<open>captures_after_creation seen tr\<close> holds when every capture call
  in \<open>tr\<close> comes after an accepted write, in \<open>seen\<close> or earlier in \<open>tr\<close>, of an order with
  the captured id and total.
\<close>

fun is_capture_call :: "event \<Rightarrow> bool" where
  "is_capture_call (Capture_call oid tot) = True"
| "is_capture_call _ = False"

fun is_accepted_put :: "event \<Rightarrow> bool" where
  "is_accepted_put (Client_Put ord (Inr u)) = True"
| "is_accepted_put _ = False"

fun is_refused_put :: "event \<Rightarrow> bool" where
  "is_refused_put (Client_Put ord (Inl e)) = True"
| "is_refused_put _ = False"

fun is_found_get :: "event \<Rightarrow> bool" where
  "is_found_get (Client_Get cid (Inr (Some ord))) = True"
| "is_found_get _ = False"

fun creates :: "string \<Rightarrow> number \<Rightarrow> event \<Rightarrow> bool" where
  "creates oid tot (Client_Put ord (Inr u)) = (Order.orderId ord = oid \<and> Order.total ord = tot)"
| "creates oid tot _ = False"

fun captures_after_creation :: "event list \<Rightarrow> event list \<Rightarrow> bool" where
  "captures_after_creation seen [] = True"
| "captures_after_creation seen (Capture_call oid tot # tr) =
     (list_ex (creates oid tot) seen \<and>
      captures_after_creation (seen @ [Capture_call oid tot]) tr)"
| "captures_after_creation seen (e # tr) = captures_after_creation (seen @ [e]) tr"

text \<open>
  The discipline of payment capture over one trace: every capture call follows an
  accepted write of its order; there are as many capture calls as accepted writes, and at
  most one; a trace with a read that found a record, or with a refused write, has no
  capture call.
\<close>

definition capture_discipline :: "event list \<Rightarrow> bool" where
  "capture_discipline tr =
     (captures_after_creation [] tr \<and>
      length (filter is_capture_call tr) = length (filter is_accepted_put tr) \<and>
      length (filter is_capture_call tr) \<le> 1 \<and>
      (list_ex is_found_get tr \<longrightarrow> \<not> list_ex is_capture_call tr) \<and>
      (list_ex is_refused_put tr \<longrightarrow> \<not> list_ex is_capture_call tr))"

definition quiet :: "event list \<Rightarrow> bool" where
  "quiet tr = list_all (\<lambda>e. \<not> is_capture_call e \<and> \<not> is_accepted_put e) tr"

text \<open>The trace of a run that creates the order.\<close>

definition creation_trace :: "string \<Rightarrow> Order \<Rightarrow> unit \<Rightarrow> event list" where
  "creation_trace cid ord u =
     [log_checkout ''checkout.start'' cid None, Client_Get cid (Inr None),
      Client_Put ord (Inr u)] @
     capturePayment (Order.orderId ord) (Order.total ord) @
     [log_checkout ''checkout.complete'' cid (Some (Order.orderId ord))]"

section \<open>Fixtures\<close>

text \<open>The cart of the tests (tests/checkout.test.ts).\<close>

definition VALID_ITEMS :: "CheckoutItem list" where
  "VALID_ITEMS =
     [\<lparr>productId = ''prod-1'', name = ''T-Shirt'', unitPrice = Finite 2000 0, quantity = Finite 2 0\<rparr>,
      \<lparr>productId = ''prod-2'', name = ''Mug'', unitPrice = Finite 1500 0, quantity = Finite 1 0\<rparr>]"

text \<open>Two carts that pass the validation and whose figures leave exact arithmetic.\<close>

definition cart_tax_off_by_one :: "CheckoutItem list" where
  "cart_tax_off_by_one =
     [\<lparr>productId = ''p1'', name = ''Item'', unitPrice = Finite 5254199565265587 0,
       quantity = Finite 1 0\<rparr>]"

definition cart_rounded_lineTotal :: "CheckoutItem list" where
  "cart_rounded_lineTotal =
     [\<lparr>productId = ''p1'', name = ''Item'', unitPrice = Finite 9007199254740991 0,
       quantity = Finite 3 0\<rparr>]"

text \<open>
  Request bodies of the tests, as the text \<^verbatim>\<open>JSON.stringify\<close> gives and as the value
  \<^verbatim>\<open>JSON.parse\<close> returns for it; \<open>fixture_parse\<close> is \<^verbatim>\<open>JSON.parse\<close> on these texts and throws
  on every other text, the empty one included.
\<close>

definition CART_ID :: string where
  "CART_ID = ''123e4567-e89b-12d3-a456-426614174000''"

definition CUSTOMER_ID :: string where
  "CUSTOMER_ID = ''customer-1''"

definition json_item :: "CheckoutItem \<Rightarrow> json" where
  "json_item it =
     JObj [(''productId'', JStr (productId it)), (''name'', JStr (name it)),
           (''unitPrice'', JNum (unitPrice it)), (''quantity'', JNum (quantity it))]"

definition request_body :: "string \<Rightarrow> string \<Rightarrow> CheckoutItem list \<Rightarrow> json" where
  "request_body cid cust its =
     JObj [(''cartId'', JStr cid), (''customerId'', JStr cust), (''items'', JArr (map json_item its))]"

definition one_item :: "int \<Rightarrow> int \<Rightarrow> CheckoutItem list" where
  "one_item u q = [\<lparr>productId = ''p1'', name = ''Item'', unitPrice = Finite u 0, quantity = Finite q 0\<rparr>]"

definition body_AC1 :: string where
  \<open>body_AC1 = ''{"cartId":"123e4567-e89b-12d3-a456-426614174000","customerId":"customer-1","items":[]}''\<close>

definition body_AC2 :: string where
  \<open>body_AC2 = ''{"customerId":"customer-1","items":[{"productId":"p1","name":"Item","unitPrice":1000,"quantity":1}]}''\<close>

definition body_AC3 :: string where
  \<open>body_AC3 = ''{"cartId":"123e4567-e89b-12d3-a456-426614174000","items":[{"productId":"p1","name":"Item","unitPrice":1000,"quantity":1}]}''\<close>

definition body_AC4 :: string where
  \<open>body_AC4 = ''{"cartId":"123e4567-e89b-12d3-a456-426614174000","customerId":"customer-1","items":[{"productId":"p1","name":"Item","unitPrice":0,"quantity":1}]}''\<close>

definition body_AC5 :: string where
  \<open>body_AC5 = ''{"cartId":"123e4567-e89b-12d3-a456-426614174000","customerId":"customer-1","items":[{"productId":"p1","name":"Item","unitPrice":1000,"quantity":0}]}''\<close>

definition body_AC6 :: string where
  \<open>body_AC6 = ''{"cartId":"123e4567-e89b-12d3-a456-426614174000","customerId":"customer-1","items":[{"productId":"prod-1","name":"T-Shirt","unitPrice":2000,"quantity":2},{"productId":"prod-2","name":"Mug","unitPrice":1500,"quantity":1}]}''\<close>

definition body_other_items :: string where
  \<open>body_other_items = ''{"cartId":"123e4567-e89b-12d3-a456-426614174000","customerId":"customer-1","items":[{"productId":"p1","name":"Item","unitPrice":1000,"quantity":1}]}''\<close>

definition fixture_parse :: "string \<Rightarrow> json option" where
  "fixture_parse =
     map_of
       [(body_AC1, request_body CART_ID CUSTOMER_ID []),
        (body_AC2, JObj [(''customerId'', JStr CUSTOMER_ID),
                         (''items'', JArr (map json_item (one_item 1000 1)))]),
        (body_AC3, JObj [(''cartId'', JStr CART_ID),
                         (''items'', JArr (map json_item (one_item 1000 1)))]),
        (body_AC4, request_body CART_ID CUSTOMER_ID (one_item 0 1)),
        (body_AC5, request_body CART_ID CUSTOMER_ID (one_item 1000 0)),
        (body_AC6, request_body CART_ID CUSTOMER_ID VALID_ITEMS),
        (body_other_items, request_body CART_ID CUSTOMER_ID (one_item 1000 1))]"

definition fixture_uuid :: string where
  "fixture_uuid = ''9b2f1c3e-5d4a-4f6b-8c7d-0e1f2a3b4c5d''"

definition fixture_uuid_2 :: string where
  "fixture_uuid_2 = ''1a2b3c4d-0000-4000-8000-99aabbccddee''"

definition fixture_now :: string where
  "fixture_now = ''2024-01-15T10:30:00.000Z''"

text \<open>
  A table that loses its record: the conditional write is refused, the read that follows
  finds nothing.
\<close>

definition lost_record_platform :: "unit platform" where
  "lost_record_platform =
     \<lparr>JSON_parse = fixture_parse, randomUUID = (\<lambda>w. (fixture_uuid, w)),
      toISOString_now = (\<lambda>w. (fixture_now, w)),
      send_Get = (\<lambda>cid w. (Inr None, w)),
      send_Put = (\<lambda>ord w.
        (Inl (ConditionalCheckFailedException ''The conditional request failed''), w))\<rparr>"

text \<open>
  A table with a concurrent writer: the order of another request lands right after the
  first read of the table.
\<close>

definition racing_platform :: "(table \<times> Order option) platform" where
  "racing_platform =
     \<lparr>JSON_parse = fixture_parse, randomUUID = (\<lambda>w. (fixture_uuid_2, w)),
      toISOString_now = (\<lambda>w. (fixture_now, w)),
      send_Get = (\<lambda>cid (t, pending).
        (Inr (map_of t cid),
         (case pending of None \<Rightarrow> t | Some ord \<Rightarrow> (Order.cartId ord, ord) # t), None)),
      send_Put = (\<lambda>ord (t, pending).
        (case table_Put ord t of (r, t') \<Rightarrow> (r, (t', pending))))\<rparr>"

text \<open>The requests of two of these bodies, the platform of the fixtures, a first order.\<close>

definition valid_request :: CheckoutRequest where
  "valid_request =
     \<lparr>CheckoutRequest.cartId = CART_ID, CheckoutRequest.customerId = CUSTOMER_ID,
      CheckoutRequest.items = VALID_ITEMS\<rparr>"

definition other_request :: CheckoutRequest where
  "other_request =
     \<lparr>CheckoutRequest.cartId = CART_ID, CheckoutRequest.customerId = CUSTOMER_ID,
      CheckoutRequest.items = one_item 1000 1\<rparr>"

definition fixture_platform :: "table platform" where
  "fixture_platform = table_platform fixture_parse fixture_uuid fixture_now"

definition fixture_platform_2 :: "table platform" where
  "fixture_platform_2 = table_platform fixture_parse fixture_uuid_2 fixture_now"

definition first_order :: Order where
  "first_order = new_order valid_request (calculatePricing VALID_ITEMS) fixture_uuid fixture_now"

definition losing_order :: Order where
  "losing_order = new_order valid_request (calculatePricing VALID_ITEMS) fixture_uuid_2 fixture_now"

definition MIXED_CASE_CART_ID :: string where
  "MIXED_CASE_CART_ID = ''123E4567-e89b-12D3-A456-426614174000''"

section \<open>Rounding\<close>

lemma zdiv_less_iff:
  fixes q d T :: int
  assumes "0 < d"
  shows "q div d < T \<longleftrightarrow> q < T * d"
proof
  have q: "q = q div d * d + q mod d" by simp
  have m: "0 \<le> q mod d" "q mod d < d" using assms by simp_all
  {
    assume "q div d < T"
    then have "q div d + 1 \<le> T" by simp
    then have "(q div d + 1) * d \<le> T * d" using assms by (simp only: mult_right_mono less_imp_le)
    then have "q div d * d + d \<le> T * d" by (simp add: algebra_simps)
    with q m show "q < T * d" by linarith
  }
  {
    assume lt: "q < T * d"
    show "q div d < T"
    proof (rule ccontr)
      assume "\<not> q div d < T"
      then have "T \<le> q div d" by simp
      then have "T * d \<le> q div d * d" using assms by (simp only: mult_right_mono less_imp_le)
      with q m lt show False by linarith
    qed
  }
qed

lemma floor_lowest: "Math_floor (lowest n k) = Finite (n div 2 ^ k) 0"
proof (induction k arbitrary: n)
  case 0
  show ?case by simp
next
  case (Suc k)
  have "n div 2 div 2 ^ k = n div (2 * 2 ^ k)"
    by (simp add: zdiv_zmult2_eq)
  with Suc show ?case by simp
qed

lemma fl_exact:
  assumes "bitlen \<bar>n\<bar> \<le> 53" and "k \<le> 1074"
  shows "fl n k = lowest n k"
proof -
  have "max (bitlen \<bar>n\<bar> - int k - 53) (- 1074) + int k \<le> 0"
    using assms by simp
  then show ?thesis
    unfolding fl_def Let_def by (simp only: if_True)
qed

lemma fl_rounded:
  assumes n: "0 < n" and sh: "int sh = bitlen n - 53" "0 < sh" "sh < k" and k: "k \<le> 1021"
  shows "fl n k = lowest (round_half_even n sh) (k - sh)"
proof -
  have u: "max (bitlen \<bar>n\<bar> - int k - 53) (- 1074) = int sh - int k"
    using n sh k by simp
  have c1: "\<not> int sh - int k + int k \<le> 0" and c2: "\<not> 0 \<le> int sh - int k"
    using sh by simp_all
  have e1: "nat (int sh - int k + int k) = sh" and e2: "nat (- (int sh - int k)) = k - sh"
    using sh by simp_all
  have e3: "sgn n * round_half_even n sh = round_half_even n sh" and e4: "\<bar>n\<bar> = n"
    using n by simp_all
  show ?thesis
    unfolding fl_def Let_def u by (simp only: c1 c2 if_False e1 e2 e4 e3)
qed

lemma round_half_even_bounds:
  assumes "0 < sh"
  shows "a div 2 ^ sh \<le> round_half_even a sh"
    and "round_half_even a sh * 2 ^ sh \<le> a + 2 ^ (sh - 1)"
proof -
  define d :: int where "d = 2 ^ sh"
  define q where "q = a div d"
  define r where "r = a mod d"
  have rhe: "round_half_even a sh = (if d div 2 < r \<or> (r = d div 2 \<and> odd q) then q + 1 else q)"
    by (simp add: round_half_even_def Let_def d_def q_def r_def)
  show "a div 2 ^ sh \<le> round_half_even a sh"
    unfolding rhe by (simp add: q_def d_def)
  have d2: "d = 2 * 2 ^ (sh - 1)"
    using assms by (simp add: d_def flip: power_Suc)
  have a: "a = q * d + r"
    by (simp add: q_def r_def)
  have r0: "0 \<le> r"
    by (simp add: r_def d_def)
  have p0: "(0::int) < 2 ^ (sh - 1)" by simp
  have "round_half_even a sh * d \<le> a + 2 ^ (sh - 1)"
  proof (cases "d div 2 < r \<or> (r = d div 2 \<and> odd q)")
    case True
    then have hr: "2 ^ (sh - 1) \<le> r" using d2 by auto
    from True have "round_half_even a sh = q + 1" unfolding rhe by (rule if_P)
    then have "round_half_even a sh * d = (q + 1) * d" by simp
    also have "\<dots> = q * d + 2 * 2 ^ (sh - 1)" using d2 by (simp add: algebra_simps)
    finally show ?thesis using a hr by linarith
  next
    case False
    then have "round_half_even a sh = q" unfolding rhe by (rule if_not_P)
    then have "round_half_even a sh * d = q * d" by simp
    then show ?thesis using a r0 p0 by linarith
  qed
  then show "round_half_even a sh * 2 ^ sh \<le> a + 2 ^ (sh - 1)"
    by (simp add: d_def)
qed


lemma floor_fl_56:
  assumes a0: "0 \<le> a" and a1: "a < 2 ^ 108"
  shows "\<exists>m. Math_floor (fl a 56) = Finite m 0 \<and> a div 2 ^ 56 \<le> m \<and>
             (\<forall>T. a + 2 ^ nat (bitlen a - 54) < T * 2 ^ 56 \<longrightarrow> m < T)"
proof (cases "bitlen a \<le> 53")
  case True
  have fl: "fl a 56 = lowest a 56"
    using True a0 by (simp add: fl_exact)
  have "\<forall>T. a + 2 ^ nat (bitlen a - 54) < T * 2 ^ 56 \<longrightarrow> a div 2 ^ 56 < T"
  proof (intro allI impI)
    fix T :: int
    have "(0::int) < 2 ^ nat (bitlen a - 54)" by simp
    moreover assume "a + 2 ^ nat (bitlen a - 54) < T * 2 ^ 56"
    ultimately have "a < T * 2 ^ 56"
      by linarith
    then show "a div 2 ^ 56 < T"
      by (simp add: zdiv_less_iff)
  qed
  then show ?thesis
    by (simp add: fl floor_lowest)
next
  case False
  define s where "s = nat (bitlen a - 53)"
  have b_hi: "bitlen a \<le> 108"
    using a1 by (simp add: bitlen_le_iff_power)
  have s_pos: "0 < s" and s_le: "s \<le> 55" and s_eq: "int s = bitlen a - 53"
    using False b_hi by (simp_all add: s_def)
  have a_pos: "0 < a"
    using False a0 by (cases "a = 0") simp_all
  define q' where "q' = round_half_even a s"
  have fl: "fl a 56 = lowest q' (56 - s)"
    unfolding q'_def using a_pos s_eq s_pos s_le by (intro fl_rounded) simp_all
  have split: "2 ^ 56 = (2 ^ s :: int) * 2 ^ (56 - s)"
    using s_le by (simp flip: power_add)
  have lower: "a div 2 ^ 56 \<le> q' div 2 ^ (56 - s)"
  proof -
    have "a div 2 ^ 56 = (a div 2 ^ s) div 2 ^ (56 - s)"
      unfolding split by (simp add: zdiv_zmult2_eq)
    also have "\<dots> \<le> q' div 2 ^ (56 - s)"
      unfolding q'_def using round_half_even_bounds(1) [OF s_pos, of a] by (simp add: zdiv_mono1)
    finally show ?thesis .
  qed
  have h: "nat (bitlen a - 54) = s - 1" using s_eq by simp
  have upper: "\<forall>T. a + 2 ^ nat (bitlen a - 54) < T * 2 ^ 56 \<longrightarrow> q' div 2 ^ (56 - s) < T"
  proof (intro allI impI)
    fix T :: int
    assume "a + 2 ^ nat (bitlen a - 54) < T * 2 ^ 56"
    with round_half_even_bounds(2) [OF s_pos, of a]
    have "q' * 2 ^ s < T * 2 ^ 56" unfolding q'_def h by linarith
    then have "q' * 2 ^ s < (T * 2 ^ (56 - s)) * 2 ^ s"
      unfolding split by (simp add: mult.commute mult.left_commute)
    then have "q' < T * 2 ^ (56 - s)"
      by (simp add: mult_less_cancel_right)
    then show "q' div 2 ^ (56 - s) < T"
      by (simp add: zdiv_less_iff)
  qed
  show ?thesis
    using lower upper by (simp add: fl floor_lowest)
qed


lemma bitlen_pow_le:
  assumes "a < 2 ^ (54 + e)"
  shows "(2::int) ^ nat (bitlen a - 54) \<le> 2 ^ e"
proof -
  have "nat (int (54 + e)) = 54 + e" by simp
  then have "bitlen a \<le> int (54 + e)"
    using assms by (simp only: bitlen_le_iff_power) simp
  then have "nat (bitlen a - 54) \<le> e" by simp
  then show ?thesis by (simp only: power_increasing one_le_numeral)
qed

lemma tax_remainder:
  fixes n t r :: int
  assumes tr: "n * 8 = t * 100 + r" and r: "r < 100"
  shows "r \<le> 92 \<or> (r = 96 \<and> n mod 25 = 12)"
proof -
  have "r = 4 * (2 * n - 25 * t)" using tr by simp
  then have "r mod 4 = 0" by simp
  with r have "r \<le> 92 \<or> r = 96" by presburger
  moreover have "n mod 25 = 12" if "r = 96"
  proof -
    have "4 * (2 * n) = 4 * (25 * t + 24)" using tr that by simp
    then have n2: "2 * n = 25 * t + 24" by (simp only: mult_cancel_left) simp
    then have "25 * t = 2 * (n - 12)" by simp
    then have "even (25 * t)" by (simp only: even_mult_iff) simp
    then have "even t" by simp
    then obtain k where k: "t = 2 * k" by (elim evenE)
    with n2 have "n = 25 * k + 12" by simp
    then show ?thesis by simp
  qed
  ultimately show ?thesis by blast
qed

lemma tax_floor_sharp:
  assumes n0: "0 \<le> n" and n1: "n < 5254199565265587"
  shows "Math_floor (num_mul (Finite n 0) lit_0_08) = Finite (n * 8 div 100) 0"
proof -
  define a where "a = n * 5764607523034235"
  define t where "t = n * 8 div 100"
  define r where "r = n * 8 mod 100"
  have tr: "n * 8 = t * 100 + r"
    by (simp only: t_def r_def div_mult_mod_eq)
  have r0: "0 \<le> r" by (simp add: r_def)
  have a0: "0 \<le> a" using n0 by (simp add: a_def)
  have a105: "a < 2 ^ (54 + 51)" using n1 by (simp add: a_def)
  then have a108: "a < 2 ^ 108" by simp
  from floor_fl_56 [OF a0 a108] obtain m where
    m: "Math_floor (fl a 56) = Finite m 0" and lo: "a div 2 ^ 56 \<le> m"
    and up: "\<And>T. a + 2 ^ nat (bitlen a - 54) < T * 2 ^ 56 \<Longrightarrow> m < T"
    by blast
  have "t * 2 ^ 56 \<le> a"
    using tr r0 n0 by (simp add: a_def)
  then have "(t * 2 ^ 56) div 2 ^ 56 \<le> a div 2 ^ 56"
    by (simp only: zdiv_mono1 zero_less_power zero_less_numeral)
  then have t_le: "t \<le> m" using lo by simp
  have "r < 100" by (simp add: r_def)
  with tr have rn: "r \<le> 92 \<or> (r = 96 \<and> n mod 25 = 12)"
    by (rule tax_remainder)
  have n12: "12 * n < 28 * 2 ^ 51" if "n mod 25 = 12"
  proof -
    have n: "n = 25 * (n div 25) + 12" using that by presburger
    then have "25 * (n div 25) < 25 * 210167982610623" using n1 by linarith
    then have "n div 25 < 210167982610623" by simp
    then show ?thesis using n by simp
  qed
  have "a + 2 ^ 51 < (t + 1) * 2 ^ 56"
    using rn
  proof
    assume "r \<le> 92"
    then show ?thesis using tr n1 by (simp add: a_def)
  next
    assume "r = 96 \<and> n mod 25 = 12"
    then show ?thesis using tr n12 by (simp add: a_def)
  qed
  with bitlen_pow_le [OF a105] have "a + 2 ^ nat (bitlen a - 54) < (t + 1) * 2 ^ 56"
    by linarith
  then have "m < t + 1" by (rule up)
  with t_le have mt: "m = t" by simp
  have "num_mul (Finite n 0) lit_0_08 = fl a 56"
    by (simp add: lit_0_08_def a_def)
  then have "Math_floor (num_mul (Finite n 0) lit_0_08) = Finite t 0"
    using m mt by simp
  then show ?thesis
    unfolding t_def .
qed

lemma tax_floor_safe:
  assumes n0: "0 \<le> n" and n1: "n < 2 ^ 53"
  shows "\<exists>m. Math_floor (num_mul (Finite n 0) lit_0_08) = Finite m 0 \<and>
             exact_tax n \<le> m \<and> m \<le> exact_tax n + 1"
proof -
  define a where "a = n * 5764607523034235"
  define t where "t = n * 8 div 100"
  define r where "r = n * 8 mod 100"
  have tr: "n * 8 = t * 100 + r"
    by (simp only: t_def r_def div_mult_mod_eq)
  have r0: "0 \<le> r" and r1: "r < 100" by (simp_all add: r_def)
  have a0: "0 \<le> a" using n0 by (simp add: a_def)
  have a106: "a < 2 ^ (54 + 52)" using n1 by (simp add: a_def)
  then have a108: "a < 2 ^ 108" by simp
  from floor_fl_56 [OF a0 a108] obtain m where
    m: "Math_floor (fl a 56) = Finite m 0" and lo: "a div 2 ^ 56 \<le> m"
    and up: "\<And>T. a + 2 ^ nat (bitlen a - 54) < T * 2 ^ 56 \<Longrightarrow> m < T"
    by blast
  have "t * 2 ^ 56 \<le> a"
    using tr r0 n0 by (simp add: a_def)
  then have "(t * 2 ^ 56) div 2 ^ 56 \<le> a div 2 ^ 56"
    by (simp only: zdiv_mono1 zero_less_power zero_less_numeral)
  then have t_le: "t \<le> m" using lo by simp
  have "a + 2 ^ 52 < (t + 2) * 2 ^ 56"
    using tr r1 n1 by (simp add: a_def)
  with bitlen_pow_le [OF a106] have "a + 2 ^ nat (bitlen a - 54) < (t + 2) * 2 ^ 56"
    by linarith
  then have "m < t + 2" by (rule up)
  then have m_le: "m \<le> t + 1" by simp
  have "num_mul (Finite n 0) lit_0_08 = fl a 56"
    by (simp add: lit_0_08_def a_def)
  then have "Math_floor (num_mul (Finite n 0) lit_0_08) = Finite m 0"
    using m by simp
  then show ?thesis
    using t_le m_le unfolding t_def exact_tax_def by blast
qed

lemma fl_int_exact: "\<bar>n\<bar> < 2 ^ 53 \<Longrightarrow> fl n 0 = Finite n 0"
  by (simp add: fl_exact bitlen_le_iff_power)

lemma num_mul_int:
  "\<bar>a * b\<bar> < 2 ^ 53 \<Longrightarrow> num_mul (Finite a 0) (Finite b 0) = Finite (a * b) 0"
  by (simp add: fl_int_exact)

lemma num_add_int:
  "\<bar>a + b\<bar> < 2 ^ 53 \<Longrightarrow> num_add (Finite a 0) (Finite b 0) = Finite (a + b) 0"
  by (simp add: fl_int_exact)

lemma positive_integerD:
  assumes "positive_integer x"
  obtains n where "x = Finite n 0" and "0 < n"
  using assms by (cases x) auto

lemma valid_item_lineTotal:
  assumes "valid_item it"
  shows "0 < exact_lineTotal it"
    and "exact_lineTotal it < 2 ^ 53 \<Longrightarrow>
         num_mul (unitPrice it) (quantity it) = Finite (exact_lineTotal it) 0"
proof -
  from assms obtain u q where u: "unitPrice it = Finite u 0" "0 < u"
    and q: "quantity it = Finite q 0" "0 < q"
    unfolding valid_item_def by (elim conjE positive_integerD)
  have e: "exact_lineTotal it = u * q"
    by (simp add: exact_lineTotal_def u q)
  show pos: "0 < exact_lineTotal it"
    using u q by (simp add: e)
  show "num_mul (unitPrice it) (quantity it) = Finite (exact_lineTotal it) 0"
    if "exact_lineTotal it < 2 ^ 53"
  proof -
    have "\<bar>u * q\<bar> < 2 ^ 53" using that pos unfolding e by linarith
    then show ?thesis unfolding u q e by (rule num_mul_int)
  qed
qed

lemma exact_subtotal_nonneg: "list_all valid_item its \<Longrightarrow> 0 \<le> exact_subtotal its"
  by (induction its) (auto simp: exact_subtotal_def dest: valid_item_lineTotal(1))

lemma priced_exact:
  assumes "list_all valid_item its" and "exact_subtotal its < 2 ^ 53"
  shows "map lineTotal (map priced its) = map (\<lambda>it. Finite (exact_lineTotal it) 0) its"
  using assms
proof (induction its)
  case Nil
  show ?case by simp
next
  case (Cons it its)
  then have v: "valid_item it" and vs: "list_all valid_item its" by simp_all
  have s: "exact_subtotal (it # its) = exact_lineTotal it + exact_subtotal its"
    by (simp add: exact_subtotal_def)
  from valid_item_lineTotal(1) [OF v] exact_subtotal_nonneg [OF vs] Cons.prems(2)
  have b: "exact_lineTotal it < 2 ^ 53" "exact_subtotal its < 2 ^ 53"
    unfolding s by linarith+
  have "lineTotal (priced it) = Finite (exact_lineTotal it) 0"
    using valid_item_lineTotal(2) [OF v b(1)]
    by (simp add: priced_def CheckoutItem.defs OrderItem.defs)
  with Cons.IH [OF vs b(2)] show ?case by simp
qed

lemma sum_exact:
  assumes "list_all valid_item its" and "0 \<le> acc" and "acc + exact_subtotal its < 2 ^ 53"
  shows "foldl (\<lambda>sum item. num_add sum (lineTotal item)) (Finite acc 0) (map priced its)
         = Finite (acc + exact_subtotal its) 0"
  using assms
proof (induction its arbitrary: acc)
  case Nil
  show ?case by (simp add: exact_subtotal_def)
next
  case (Cons it its)
  then have v: "valid_item it" and vs: "list_all valid_item its" by simp_all
  have s: "exact_subtotal (it # its) = exact_lineTotal it + exact_subtotal its"
    by (simp add: exact_subtotal_def)
  note p = valid_item_lineTotal(1) [OF v] and n = exact_subtotal_nonneg [OF vs]
  have b: "exact_lineTotal it < 2 ^ 53" "\<bar>acc + exact_lineTotal it\<bar> < 2 ^ 53"
    using p n Cons.prems(2,3) unfolding s by linarith+
  have "lineTotal (priced it) = Finite (exact_lineTotal it) 0"
    using valid_item_lineTotal(2) [OF v b(1)]
    by (simp add: priced_def CheckoutItem.defs OrderItem.defs)
  then have step: "num_add (Finite acc 0) (lineTotal (priced it))
                   = Finite (acc + exact_lineTotal it) 0"
    using b(2) by (simp only: num_add_int)
  have "foldl (\<lambda>sum item. num_add sum (lineTotal item)) (Finite (acc + exact_lineTotal it) 0)
          (map priced its) = Finite (acc + exact_lineTotal it + exact_subtotal its) 0"
    using p n Cons.prems(2,3) unfolding s by (intro Cons.IH [OF vs]) linarith+
  then show ?case
    using step by (simp add: s add.assoc)
qed

lemma calculatePricing_alt:
  "calculatePricing its =
     \<lparr>PricingResult.items = map priced its,
      PricingResult.subtotal = foldl (\<lambda>sum item. num_add sum (lineTotal item)) (Finite 0 0) (map priced its),
      PricingResult.tax = Math_floor (num_mul (foldl (\<lambda>sum item. num_add sum (lineTotal item)) (Finite 0 0) (map priced its)) lit_0_08),
      PricingResult.total = num_add (foldl (\<lambda>sum item. num_add sum (lineTotal item)) (Finite 0 0) (map priced its))
         (Math_floor (num_mul (foldl (\<lambda>sum item. num_add sum (lineTotal item)) (Finite 0 0) (map priced its)) lit_0_08))\<rparr>"
  unfolding calculatePricing_def Let_def ..

lemma truncate_priced: "map CheckoutItem.truncate (map priced its) = its"
  by (induction its) (simp_all add: priced_def CheckoutItem.defs OrderItem.defs)

section \<open>Pricing in the exact range\<close>

lemma priced_fields:
  "unitPrice (priced it) = unitPrice it" "quantity (priced it) = quantity it"
  "lineTotal (priced it) = num_mul (unitPrice it) (quantity it)"
  by (simp_all add: priced_def CheckoutItem.defs OrderItem.defs)

lemma exact_lineTotal_le_subtotal:
  assumes "list_all valid_item its" and "it \<in> set its"
  shows "exact_lineTotal it \<le> exact_subtotal its"
  using assms
proof (induction its)
  case Nil
  then show ?case by simp
next
  case (Cons x xs)
  then have vx: "valid_item x" and vxs: "list_all valid_item xs" by simp_all
  have s: "exact_subtotal (x # xs) = exact_lineTotal x + exact_subtotal xs"
    by (simp add: exact_subtotal_def)
  note p = valid_item_lineTotal(1) [OF vx] and n = exact_subtotal_nonneg [OF vxs]
  show ?case
  proof (cases "it = x")
    case True
    then show ?thesis unfolding s using n by simp
  next
    case False
    with Cons.prems(2) have "it \<in> set xs" by simp
    from Cons.IH [OF vxs this] show ?thesis unfolding s using p by linarith
  qed
qed

section \<open>The UUID pattern\<close>

lemma of_char_canonicalize: "of_char (canonicalize True x) = canon_code (of_char x)"
proof (cases "97 \<le> (of_char x :: nat) \<and> of_char x \<le> (122 :: nat)")
  case True
  then have "((of_char x :: nat) - 32) mod 256 = of_char x - 32" by auto
  with True show ?thesis
    by (auto simp add: canonicalize_def canon_code_def take_bit_eq_mod)
next
  case False
  then show ?thesis by (auto simp add: canonicalize_def canon_code_def)
qed

lemma canonicalize_eq_iff:
  "(canonicalize True c = canonicalize True x) = (canon_code (of_char c) = canon_code (of_char x))"
proof -
  have "(canonicalize True c = canonicalize True x)
        = (of_char (canonicalize True c) = (of_char (canonicalize True x) :: nat))"
    by simp
  then show ?thesis by (simp only: of_char_canonicalize)
qed

lemma char_of_range:
  fixes l h :: nat
  assumes "h < 256"
  shows "c \<in> set (map char_of [l ..< Suc h]) \<longleftrightarrow> l \<le> of_char c \<and> of_char c \<le> h"
proof
  assume "c \<in> set (map char_of [l ..< Suc h])"
  then obtain m where m: "l \<le> m" "m \<le> h" and c: "c = char_of m" by auto
  from m assms have "m mod 256 = m" by simp
  then have "of_char c = m" by (simp add: c take_bit_eq_mod)
  with m show "l \<le> of_char c \<and> of_char c \<le> h" by simp
next
  assume "l \<le> of_char c \<and> of_char c \<le> h"
  then have "of_char c \<in> set [l ..< Suc h]" by auto
  then have "char_of (of_char c :: nat) \<in> char_of ` set [l ..< Suc h]" by (rule imageI)
  then show "c \<in> set (map char_of [l ..< Suc h])" by simp
qed

lemma hex_class_chars:
  "c \<in> set (class_chars hex_class)
   \<longleftrightarrow> (48 \<le> (of_char c :: nat) \<and> (of_char c :: nat) \<le> 57) \<or>
       (97 \<le> (of_char c :: nat) \<and> (of_char c :: nat) \<le> 102)"
proof -
  have "class_chars hex_class = map char_of [48 ..< Suc 57] @ map char_of [97 ..< Suc 102]"
    by (simp add: class_chars_def hex_class_def)
  then have "c \<in> set (class_chars hex_class) \<longleftrightarrow>
      c \<in> set (map char_of [48 ..< Suc 57]) \<or> c \<in> set (map char_of [97 ..< Suc 102])"
    by (simp only: set_append Un_iff)
  then show ?thesis
    by (simp only: char_of_range [of 57 c 48] char_of_range [of 102 c 97])
qed


lemma is_hex_digit_code:
  "is_hex_digit c \<longleftrightarrow>
     (48 \<le> (of_char c :: nat) \<and> (of_char c :: nat) \<le> 57) \<or>
     (65 \<le> (of_char c :: nat) \<and> (of_char c :: nat) \<le> 70) \<or>
     (97 \<le> (of_char c :: nat) \<and> (of_char c :: nat) \<le> 102)"
proof -
  have "''0123456789abcdefABCDEF''
        = map char_of [48 ..< Suc 57 :: nat] @ map char_of [97 ..< Suc 102 :: nat]
          @ map char_of [65 ..< Suc 70 :: nat]"
    by code_simp
  then have "is_hex_digit c \<longleftrightarrow>
      c \<in> set (map char_of [48 ..< Suc 57]) \<or> c \<in> set (map char_of [97 ..< Suc 102])
      \<or> c \<in> set (map char_of [65 ..< Suc 70])"
    unfolding is_hex_digit_def by (simp only: set_append Un_iff)
  then show ?thesis
    by (simp only: char_of_range [of 57 c 48] char_of_range [of 102 c 97]
          char_of_range [of 70 c 65]) blast
qed

lemma hex_class_match: "class_match True hex_class x = is_hex_digit x"
proof -
  define n :: nat where "n = of_char x"
  have "class_match True hex_class x
        = (\<exists>c \<in> set (class_chars hex_class). canon_code (of_char c) = canon_code n)"
    by (simp only: class_match_def list_ex_iff canonicalize_eq_iff n_def)
  also have "\<dots> = (\<exists>c. ((48 \<le> (of_char c :: nat) \<and> (of_char c :: nat) \<le> 57) \<or>
                        (97 \<le> (of_char c :: nat) \<and> (of_char c :: nat) \<le> 102)) \<and>
                       canon_code (of_char c) = canon_code n)"
    by (simp only: Bex_def hex_class_chars)
  also have "\<dots> = ((48 \<le> n \<and> n \<le> 57) \<or> (65 \<le> n \<and> n \<le> 70) \<or> (97 \<le> n \<and> n \<le> 102))"
  proof
    assume "\<exists>c. ((48 \<le> (of_char c :: nat) \<and> (of_char c :: nat) \<le> 57) \<or>
                        (97 \<le> (of_char c :: nat) \<and> (of_char c :: nat) \<le> 102)) \<and>
                       canon_code (of_char c) = canon_code n"
    then obtain m :: nat where "(48 \<le> m \<and> m \<le> 57) \<or> (97 \<le> m \<and> m \<le> 102)"
      and "canon_code m = canon_code n" by blast
    then show "(48 \<le> n \<and> n \<le> 57) \<or> (65 \<le> n \<and> n \<le> 70) \<or> (97 \<le> n \<and> n \<le> 102)"
      by (auto simp: canon_code_def split: if_splits)
  next
    assume n: "(48 \<le> n \<and> n \<le> 57) \<or> (65 \<le> n \<and> n \<le> 70) \<or> (97 \<le> n \<and> n \<le> 102)"
    define m where "m = (if 65 \<le> n \<and> n \<le> 70 then n + 32 else n)"
    have m: "((48 \<le> m \<and> m \<le> 57) \<or> (97 \<le> m \<and> m \<le> 102)) \<and> canon_code m = canon_code n"
      using n by (auto simp: m_def canon_code_def)
    have "m mod 256 = m" using n by (auto simp: m_def)
    then have "of_char (char_of m) = m" by (simp add: take_bit_eq_mod)
    with m show "\<exists>c. ((48 \<le> (of_char c :: nat) \<and> (of_char c :: nat) \<le> 57) \<or>
                        (97 \<le> (of_char c :: nat) \<and> (of_char c :: nat) \<le> 102)) \<and>
                       canon_code (of_char c) = canon_code n"
      by (intro exI [of _ "char_of m"]) simp
  qed
  finally show ?thesis
    by (simp only: is_hex_digit_code n_def)
qed

lemma hyphen_match:
  "(canonicalize True x = canonicalize True CHR ''-'') = (x = CHR ''-'')"
proof -
  have "(canonicalize True x = canonicalize True CHR ''-'')
        = (canon_code (of_char x) = canon_code 45)"
    by (simp add: canonicalize_eq_iff)
  also have "\<dots> = ((of_char x :: nat) = 45)"
    by (auto simp: canon_code_def)
  also have "\<dots> = ((of_char x :: nat) = of_char CHR ''-'')"
    by simp
  also have "\<dots> = (x = CHR ''-'')"
    by (simp only: of_char_eq_iff)
  finally show ?thesis .
qed


lemma re_match_Class:
  "re_match ci (Class rs n # ts) s \<longleftrightarrow>
     n \<le> length s \<and> list_all (class_match ci rs) (take n s) \<and> re_match ci ts (drop n s)"
proof (induction n arbitrary: s)
  case 0
  show ?case by simp
next
  case (Suc n)
  show ?case
  proof (cases s)
    case Nil
    then show ?thesis by simp
  next
    case (Cons x xs)
    then show ?thesis by (auto simp: Suc.IH)
  qed
qed

lemma re_match_Lit:
  "re_match ci (Lit c # ts) s \<longleftrightarrow>
     1 \<le> length s \<and> canonicalize ci (s ! 0) = canonicalize ci c \<and> re_match ci ts (drop 1 s)"
  by (cases s) simp_all

lemma UUID_RE_unfold:
  "RegExp_test UUID_RE s \<longleftrightarrow>
     8 \<le> length s \<and> list_all is_hex_digit (take 8 s) \<and>
     1 \<le> length (drop 8 s) \<and> drop 8 s ! 0 = CHR ''-'' \<and>
     4 \<le> length (drop 1 (drop 8 s)) \<and> list_all is_hex_digit (take 4 (drop 1 (drop 8 s))) \<and>
     1 \<le> length (drop 4 (drop 1 (drop 8 s))) \<and> drop 4 (drop 1 (drop 8 s)) ! 0 = CHR ''-'' \<and>
     4 \<le> length (drop 1 (drop 4 (drop 1 (drop 8 s)))) \<and>
     list_all is_hex_digit (take 4 (drop 1 (drop 4 (drop 1 (drop 8 s))))) \<and>
     1 \<le> length (drop 4 (drop 1 (drop 4 (drop 1 (drop 8 s))))) \<and>
     drop 4 (drop 1 (drop 4 (drop 1 (drop 8 s)))) ! 0 = CHR ''-'' \<and>
     4 \<le> length (drop 1 (drop 4 (drop 1 (drop 4 (drop 1 (drop 8 s)))))) \<and>
     list_all is_hex_digit (take 4 (drop 1 (drop 4 (drop 1 (drop 4 (drop 1 (drop 8 s))))))) \<and>
     1 \<le> length (drop 4 (drop 1 (drop 4 (drop 1 (drop 4 (drop 1 (drop 8 s))))))) \<and>
     drop 4 (drop 1 (drop 4 (drop 1 (drop 4 (drop 1 (drop 8 s)))))) ! 0 = CHR ''-'' \<and>
     12 \<le> length (drop 1 (drop 4 (drop 1 (drop 4 (drop 1 (drop 4 (drop 1 (drop 8 s)))))))) \<and>
     list_all is_hex_digit
       (take 12 (drop 1 (drop 4 (drop 1 (drop 4 (drop 1 (drop 4 (drop 1 (drop 8 s))))))))) \<and>
     drop 12 (drop 1 (drop 4 (drop 1 (drop 4 (drop 1 (drop 4 (drop 1 (drop 8 s)))))))) = []"
  unfolding RegExp_test_def UUID_RE_def RegExp.simps re_match_Class re_match_Lit
    re_match.simps(1) hex_class_match [abs_def] hyphen_match
  by (simp only: conj_assoc)

lemma UUID_RE_test: "RegExp_test UUID_RE s = uuid_shape s"
proof (cases "length s = 36")
  case True
  have d: "drop 1 (drop 8 s) = drop 9 s" "drop 4 (drop 9 s) = drop 13 s"
    "drop 1 (drop 13 s) = drop 14 s" "drop 4 (drop 14 s) = drop 18 s"
    "drop 1 (drop 18 s) = drop 19 s" "drop 4 (drop 19 s) = drop 23 s"
    "drop 1 (drop 23 s) = drop 24 s" "drop 12 (drop 24 s) = []"
    "take 12 (drop 24 s) = drop 24 s"
    using True by simp_all
  have n: "drop 8 s ! 0 = s ! 8" "drop 13 s ! 0 = s ! 13" "drop 18 s ! 0 = s ! 18"
    "drop 23 s ! 0 = s ! 23"
    using True by simp_all
  have l: "8 \<le> length s" "1 \<le> length (drop 8 s)" "4 \<le> length (drop 9 s)"
    "1 \<le> length (drop 13 s)" "4 \<le> length (drop 14 s)" "1 \<le> length (drop 18 s)"
    "4 \<le> length (drop 19 s)" "1 \<le> length (drop 23 s)" "12 \<le> length (drop 24 s)"
    using True by simp_all
  show ?thesis
    unfolding UUID_RE_unfold uuid_shape_def d n using True l by (simp only: simp_thms)
next
  case False
  have "\<not> RegExp_test UUID_RE s"
  proof
    assume "RegExp_test UUID_RE s"
    then have "8 \<le> length s" "1 \<le> length (drop 8 s)" "4 \<le> length (drop 1 (drop 8 s))"
      "1 \<le> length (drop 4 (drop 1 (drop 8 s)))"
      "4 \<le> length (drop 1 (drop 4 (drop 1 (drop 8 s))))"
      "1 \<le> length (drop 4 (drop 1 (drop 4 (drop 1 (drop 8 s)))))"
      "4 \<le> length (drop 1 (drop 4 (drop 1 (drop 4 (drop 1 (drop 8 s))))))"
      "1 \<le> length (drop 4 (drop 1 (drop 4 (drop 1 (drop 4 (drop 1 (drop 8 s)))))))"
      "12 \<le> length (drop 1 (drop 4 (drop 1 (drop 4 (drop 1 (drop 4 (drop 1 (drop 8 s))))))))"
      "drop 12 (drop 1 (drop 4 (drop 1 (drop 4 (drop 1 (drop 4 (drop 1 (drop 8 s)))))))) = []"
      unfolding UUID_RE_unfold by blast+
    then have "length s = 36" by simp
    with False show False ..
  qed
  moreover have "\<not> uuid_shape s"
    using False by (simp add: uuid_shape_def)
  ultimately show ?thesis by simp
qed

section \<open>Claims on the pricing engine\<close>

text \<open>
  Where the tax of the code is the exact floor: for every valid item list whose exact
  subtotal is below 5254199565265587 the rounding of the binary64 product
  \<^verbatim>\<open>subtotal * 0.08\<close> does not cross an integer.
\<close>

lemma tax_exact_below_threshold:
  assumes v: "valid_items its" and b: "exact_subtotal its < 5254199565265587"
  shows "let r = calculatePricing its in
           int_of (PricingResult.subtotal r) = exact_subtotal its \<and>
           nonneg_integer (PricingResult.tax r) \<and>
           int_of (PricingResult.tax r) = int_of (PricingResult.subtotal r) * 8 div 100"
proof -
  define S where "S = exact_subtotal its"
  from v have vs: "list_all valid_item its"
    by (simp add: valid_items_def)
  have S0: "0 \<le> S"
    unfolding S_def using vs by (rule exact_subtotal_nonneg)
  have S1: "S < 5254199565265587" using b unfolding S_def .
  then have "0 + exact_subtotal its < 2 ^ 53"
    unfolding S_def by simp
  from sum_exact [OF vs order_refl this]
  have sub: "foldl (\<lambda>sum item. num_add sum (lineTotal item)) (Finite 0 0) (map priced its)
             = Finite S 0"
    unfolding S_def by simp
  have tax: "Math_floor (num_mul (Finite S 0) lit_0_08) = Finite (S * 8 div 100) 0"
    using S0 S1 by (rule tax_floor_sharp)
  have t0: "0 \<le> S * 8 div 100"
    using S0 by simp
  have fin: "int_of (Finite S 0) = S" "nonneg_integer (Finite (S * 8 div 100) 0)"
    "int_of (Finite (S * 8 div 100) 0) = S * 8 div 100"
    using t0 by simp_all
  show ?thesis
    unfolding calculatePricing_alt Let_def PricingResult.simps sub tax S_def [symmetric]
    using fin by (simp only: simp_thms)
qed

text \<open>
  C3. The tax is to be the exact floor of subtotal * 8 / 100 for every valid item list.
  The code takes \<^verbatim>\<open>Math.floor\<close> of the binary64 product \<^verbatim>\<open>subtotal * 0.08\<close> and misses the
  floor inside the safe integer range: the cart of one item of unit price 5254199565265587
  and quantity 1 passes the validation of the items, its subtotal is exact, and the tax
  computed is 420335965221247, one more than the floor 420335965221246.
\<close>

theorem tax_off_by_one_at_threshold:
  "validateItems (map json_item cart_tax_off_by_one) = Inr cart_tax_off_by_one \<and>
   valid_items cart_tax_off_by_one \<and>
   PricingResult.subtotal (calculatePricing cart_tax_off_by_one) = Finite 5254199565265587 0 \<and>
   PricingResult.tax (calculatePricing cart_tax_off_by_one) = Finite 420335965221247 0 \<and>
   (5254199565265587 :: int) * 8 div 100 = 420335965221246 \<and>
   (5254199565265587 :: int) < 2 ^ 53 \<and>
   int_of (PricingResult.tax (calculatePricing cart_tax_off_by_one))
     \<noteq> int_of (PricingResult.subtotal (calculatePricing cart_tax_off_by_one)) * 8 div 100"
  by code_simp

text \<open>
  C4, as amended. For every valid item list whose exact total (exact subtotal plus the
  floor of 8 percent of it) is below \<open>2 ^ 53 - 1\<close>, \<^verbatim>\<open>calculatePricing\<close> returns the items in
  their order, each with \<open>lineTotal = unitPrice * quantity\<close>, the subtotal is the sum of the
  line totals, the total is subtotal plus tax, and all four are non-negative integers.
\<close>

theorem calculatePricing_safe_range:
  assumes v: "valid_items its"
    and b: "exact_subtotal its + exact_tax (exact_subtotal its) < 2 ^ 53 - 1"
  shows "let r = calculatePricing its in
           map CheckoutItem.truncate (PricingResult.items r) = its \<and>
           list_all (\<lambda>item. nonneg_integer (lineTotal item) \<and>
                            int_of (lineTotal item) = int_of (unitPrice item) * int_of (quantity item))
             (PricingResult.items r) \<and>
           nonneg_integer (PricingResult.subtotal r) \<and>
           int_of (PricingResult.subtotal r) =
             sum_list (map (\<lambda>item. int_of (lineTotal item)) (PricingResult.items r)) \<and>
           nonneg_integer (PricingResult.tax r) \<and>
           nonneg_integer (PricingResult.total r) \<and>
           int_of (PricingResult.total r) =
             int_of (PricingResult.subtotal r) + int_of (PricingResult.tax r)"
proof -
  define S where "S = exact_subtotal its"
  define sub where
    "sub = foldl (\<lambda>sum item. num_add sum (lineTotal item)) (Finite 0 0) (map priced its)"
  from v have vs: "list_all valid_item its"
    by (simp add: valid_items_def)
  have S0: "0 \<le> S"
    unfolding S_def using vs by (rule exact_subtotal_nonneg)
  then have t0: "0 \<le> exact_tax S"
    by (simp add: exact_tax_def)
  with b have S1: "S < 2 ^ 53"
    unfolding S_def by linarith
  have "0 + exact_subtotal its < 2 ^ 53"
    using S1 unfolding S_def by simp
  from sum_exact [OF vs order_refl this] have sub: "sub = Finite S 0"
    unfolding sub_def S_def by simp
  from tax_floor_safe [OF S0 S1] obtain m where
    m: "Math_floor (num_mul (Finite S 0) lit_0_08) = Finite m 0"
    and m_lo: "exact_tax S \<le> m" and m_hi: "m \<le> exact_tax S + 1"
    by blast
  have m0: "0 \<le> m" using t0 m_lo by linarith
  have "\<bar>S + m\<bar> < 2 ^ 53"
    using S0 m0 m_hi b unfolding S_def by linarith
  then have tot: "num_add (Finite S 0) (Finite m 0) = Finite (S + m) 0"
    by (rule num_add_int)
  have r: "calculatePricing its =
             \<lparr>PricingResult.items = map priced its, PricingResult.subtotal = Finite S 0,
              PricingResult.tax = Finite m 0, PricingResult.total = Finite (S + m) 0\<rparr>"
    unfolding calculatePricing_alt sub_def [symmetric] sub m tot ..
  have item: "lineTotal (priced it) = Finite (exact_lineTotal it) 0 \<and> 0 < exact_lineTotal it"
    if "it \<in> set its" for it
  proof -
    from that vs have vi: "valid_item it" by (simp add: list_all_iff)
    from exact_lineTotal_le_subtotal [OF vs that] S1 have "exact_lineTotal it < 2 ^ 53"
      unfolding S_def by linarith
    from valid_item_lineTotal(2) [OF vi this] valid_item_lineTotal(1) [OF vi]
    show ?thesis by (simp only: priced_fields simp_thms)
  qed
  have items: "list_all (\<lambda>item. nonneg_integer (lineTotal item) \<and>
                  int_of (lineTotal item) = int_of (unitPrice item) * int_of (quantity item))
                (map priced its)"
    unfolding list_all_iff
  proof
    fix x assume "x \<in> set (map priced its)"
    then obtain it where it: "it \<in> set its" and x: "x = priced it" by auto
    from item [OF it] show "nonneg_integer (lineTotal x) \<and>
        int_of (lineTotal x) = int_of (unitPrice x) * int_of (quantity x)"
      unfolding x by (simp add: priced_fields(1,2) exact_lineTotal_def)
  qed
  have "map (\<lambda>x. int_of (lineTotal x)) (map priced its) = map exact_lineTotal its"
    using item by simp
  then have sum: "sum_list (map (\<lambda>x. int_of (lineTotal x)) (map priced its)) = S"
    by (simp only: S_def exact_subtotal_def)
  have fin: "nonneg_integer (Finite S 0)" "nonneg_integer (Finite m 0)"
    "nonneg_integer (Finite (S + m) 0)" "int_of (Finite S 0) = S" "int_of (Finite m 0) = m"
    "int_of (Finite (S + m) 0) = S + m"
    using S0 m0 by simp_all
  show ?thesis
    unfolding r Let_def PricingResult.simps
    using items sum fin truncate_priced [of its] by (simp only: simp_thms)
qed


theorem calculatePricing_safe_range_witness:
  "valid_items VALID_ITEMS \<and>
   exact_subtotal VALID_ITEMS + exact_tax (exact_subtotal VALID_ITEMS) < 2 ^ 53 - 1 \<and>
   (let r = calculatePricing VALID_ITEMS in
           map CheckoutItem.truncate (PricingResult.items r) = VALID_ITEMS \<and>
           list_all (\<lambda>item. nonneg_integer (lineTotal item) \<and>
                            int_of (lineTotal item) = int_of (unitPrice item) * int_of (quantity item))
             (PricingResult.items r) \<and>
           nonneg_integer (PricingResult.subtotal r) \<and>
           int_of (PricingResult.subtotal r) =
             sum_list (map (\<lambda>item. int_of (lineTotal item)) (PricingResult.items r)) \<and>
           nonneg_integer (PricingResult.tax r) \<and>
           nonneg_integer (PricingResult.total r) \<and>
           int_of (PricingResult.total r) =
             int_of (PricingResult.subtotal r) + int_of (PricingResult.tax r))"
proof -
  have v: "valid_items VALID_ITEMS" by code_simp
  have b: "exact_subtotal VALID_ITEMS + exact_tax (exact_subtotal VALID_ITEMS) < 2 ^ 53 - 1"
    by code_simp
  from v b calculatePricing_safe_range [OF v b] show ?thesis by (intro conjI)
qed

text \<open>
  Beyond that range the claim as first stated fails: the product of a valid unit price
  and a valid quantity is rounded to the nearest binary64 value.
\<close>

theorem calculatePricing_rounds_lineTotal:
  "valid_items cart_rounded_lineTotal \<and>
   map lineTotal (PricingResult.items (calculatePricing cart_rounded_lineTotal))
     = [Finite 27021597764222972 0] \<and>
   map exact_lineTotal cart_rounded_lineTotal = [27021597764222973] \<and>
   int_of (lineTotal (hd (PricingResult.items (calculatePricing cart_rounded_lineTotal))))
     \<noteq> int_of (unitPrice (hd cart_rounded_lineTotal)) * int_of (quantity (hd cart_rounded_lineTotal))"
  by code_simp

text \<open>
  C7. For the items \<open>[{unitPrice: 2000, quantity: 2}, {unitPrice: 1500, quantity: 1}]\<close>,
  whatever their product ids and names, \<^verbatim>\<open>calculatePricing\<close> returns subtotal 5500, tax 440
  and total 5940.
\<close>

theorem calculatePricing_example:
  "PricingResult.subtotal (calculatePricing
      [\<lparr>productId = p1, name = n1, unitPrice = Finite 2000 0, quantity = Finite 2 0\<rparr>,
       \<lparr>productId = p2, name = n2, unitPrice = Finite 1500 0, quantity = Finite 1 0\<rparr>])
     = Finite 5500 0 \<and>
   PricingResult.tax (calculatePricing
      [\<lparr>productId = p1, name = n1, unitPrice = Finite 2000 0, quantity = Finite 2 0\<rparr>,
       \<lparr>productId = p2, name = n2, unitPrice = Finite 1500 0, quantity = Finite 1 0\<rparr>])
     = Finite 440 0 \<and>
   PricingResult.total (calculatePricing
      [\<lparr>productId = p1, name = n1, unitPrice = Finite 2000 0, quantity = Finite 2 0\<rparr>,
       \<lparr>productId = p2, name = n2, unitPrice = Finite 1500 0, quantity = Finite 1 0\<rparr>])
     = Finite 5940 0"
  by code_simp

text \<open>
  C8. Applied to the empty item list, \<^verbatim>\<open>calculatePricing\<close> returns no items and
  subtotal, tax and total 0.
\<close>

theorem calculatePricing_empty:
  "calculatePricing [] =
     \<lparr>PricingResult.items = [], PricingResult.subtotal = Finite 0 0,
      PricingResult.tax = Finite 0 0, PricingResult.total = Finite 0 0\<rparr>"
  by code_simp

section \<open>Validation\<close>

lemma validateItem_messages:
  "validateItem item = Inl m \<Longrightarrow> m \<in> set validation_messages"
  by (auto simp: validateItem_def validation_messages_def split: option.splits if_splits)

lemma validateItems_messages:
  "validateItems its = Inl m \<Longrightarrow> m \<in> set validation_messages"
  by (induction its) (auto split: sum.splits dest: validateItem_messages)

lemma validateRequest_messages:
  "validateRequest b = Ok_false m \<Longrightarrow> m \<in> set validation_messages"
  unfolding validateRequest_def
  by (auto split: option.splits if_splits sum.splits dest: validateItems_messages)
     (simp_all add: validation_messages_def)

lemma validateItem_Inr:
  assumes "validateItem item = Inr it"
  shows "valid_item it" and "\<not> unitPrice_nonpositive item" and "\<not> quantity_below_one item"
proof -
  from assms obtain i u q where i: "item = JObj i"
    and u: "as_number (get_prop i ''unitPrice'') = Some u" "Number_isInteger u" "\<not> le_zero u"
    and q: "as_number (get_prop i ''quantity'') = Some q" "Number_isInteger q" "\<not> lt_one q"
    and it: "unitPrice it = u" "quantity it = q"
    by (cases item) (auto simp: validateItem_def split: option.splits if_splits)
  from u(2,3) have "positive_integer u" by (cases u) auto
  moreover from q(2,3) have "positive_integer q" by (cases q) auto
  ultimately show "valid_item it" by (simp add: valid_item_def it)
  show "\<not> unitPrice_nonpositive item" by (simp add: i u)
  show "\<not> quantity_below_one item" by (simp add: i q)
qed

lemma validateItems_Inr:
  assumes "validateItems its = Inr checked"
  shows "list_all valid_item checked" and "length checked = length its"
    and "\<not> list_ex unitPrice_nonpositive its" and "\<not> list_ex quantity_below_one its"
  using assms
  by (induction its arbitrary: checked; auto split: sum.splits dest: validateItem_Inr)+

lemma validateRequest_Ok_true:
  assumes "validateRequest b = Ok_true req"
  obtains raw its where "b = JObj raw"
    and "get_prop raw ''cartId'' = Some (JStr (CheckoutRequest.cartId req))"
    and "RegExp_test UUID_RE (CheckoutRequest.cartId req)"
    and "get_prop raw ''customerId'' = Some (JStr (CheckoutRequest.customerId req))"
    and "CheckoutRequest.customerId req \<noteq> []"
    and "get_prop raw ''items'' = Some (JArr its)" and "its \<noteq> []"
    and "validateItems its = Inr (CheckoutRequest.items req)"
proof -
  from assms obtain raw where raw: "b = JObj raw"
    by (cases b) (simp_all add: validateRequest_def)
  from assms [unfolded raw validateRequest_def] obtain cid where
    cid: "as_string (get_prop raw ''cartId'') = Some cid" "cid \<noteq> []" "RegExp_test UUID_RE cid"
    by (auto split: option.splits if_splits)
  from assms [unfolded raw validateRequest_def] cid obtain cust where
    cust: "as_string (get_prop raw ''customerId'') = Some cust" "cust \<noteq> []"
    by (auto split: option.splits if_splits)
  from assms [unfolded raw validateRequest_def] cid cust obtain its where
    its: "as_array (get_prop raw ''items'') = Some its" "its \<noteq> []"
    by (auto split: option.splits if_splits)
  from assms [unfolded raw validateRequest_def] cid cust its obtain checked where
    ch: "validateItems its = Inr checked"
      and req: "req = \<lparr>CheckoutRequest.cartId = cid, CheckoutRequest.customerId = cust,
                   CheckoutRequest.items = checked\<rparr>"
    by (auto split: sum.splits)
  from cid(1) have c: "get_prop raw ''cartId'' = Some (JStr cid)"
    by (elim as_string.elims) simp_all
  from cust(1) have cu: "get_prop raw ''customerId'' = Some (JStr cust)"
    by (elim as_string.elims) simp_all
  from its(1) have i: "get_prop raw ''items'' = Some (JArr its)"
    by (elim as_array.elims) simp_all
  show thesis
    using raw c cid(3) cu cust(2) i its(2) ch by (intro that [of raw its]) (simp_all add: req)
qed

lemma validateRequest_valid_items:
  assumes "validateRequest b = Ok_true req"
  shows "valid_items (CheckoutRequest.items req)"
proof -
  from assms obtain raw its where "its \<noteq> []"
    and v: "validateItems its = Inr (CheckoutRequest.items req)"
    by (rule validateRequest_Ok_true)
  with validateItems_Inr(1,2) [OF v] show ?thesis
    by (auto simp: valid_items_def)
qed

lemma validateItem_item_messages:
  "validateItem item = Inl m \<Longrightarrow> m \<in> set item_messages"
  by (auto simp: validateItem_def item_messages_def split: option.splits if_splits)

lemma validateItems_item_messages:
  "validateItems its = Inl m \<Longrightarrow> m \<in> set item_messages"
  by (induction its) (auto split: sum.splits dest: validateItem_item_messages)

lemma cartId_messages_not_item:
  "''Missing or invalid cartId'' \<notin> set item_messages"
  "''cartId must be a valid UUID'' \<notin> set item_messages"
  by (simp_all add: item_messages_def)

section \<open>The fixtures evaluated\<close>

lemma fixture_parse_bodies:
  "fixture_parse [] = None"
  "fixture_parse ''{not json'' = None"
  "fixture_parse body_AC1 = Some (request_body CART_ID CUSTOMER_ID [])"
  "fixture_parse body_AC2 = Some (JObj [(''customerId'', JStr CUSTOMER_ID),
                         (''items'', JArr (map json_item (one_item 1000 1)))])"
  "fixture_parse body_AC3 = Some (JObj [(''cartId'', JStr CART_ID),
                         (''items'', JArr (map json_item (one_item 1000 1)))])"
  "fixture_parse body_AC4 = Some (request_body CART_ID CUSTOMER_ID (one_item 0 1))"
  "fixture_parse body_AC5 = Some (request_body CART_ID CUSTOMER_ID (one_item 1000 0))"
  "fixture_parse body_AC6 = Some (request_body CART_ID CUSTOMER_ID VALID_ITEMS)"
  "fixture_parse body_other_items = Some (request_body CART_ID CUSTOMER_ID (one_item 1000 1))"
  by code_simp+

lemma fixture_platform_parse:
  "JSON_parse fixture_platform = fixture_parse" "JSON_parse fixture_platform_2 = fixture_parse"
  "JSON_parse lost_record_platform = fixture_parse" "JSON_parse racing_platform = fixture_parse"
  by (simp_all add: fixture_platform_def fixture_platform_2_def lost_record_platform_def
        racing_platform_def table_platform_def)

lemma validateRequest_request_body:
  assumes "uuid_shape cid" and "cust \<noteq> []" and "its \<noteq> []"
    and "validateItems (map json_item its) = Inr its"
  shows "validateRequest (request_body cid cust its) =
           Ok_true \<lparr>CheckoutRequest.cartId = cid, CheckoutRequest.customerId = cust,
                    CheckoutRequest.items = its\<rparr>"
proof -
  from assms(1) have "cid \<noteq> []" by (auto simp: uuid_shape_def)
  then show ?thesis
    using assms by (simp add: validateRequest_def request_body_def get_prop_def UUID_RE_test)
qed

lemma uuid_shape_fixtures: "uuid_shape CART_ID" "uuid_shape MIXED_CASE_CART_ID"
  "\<not> uuid_shape ''not-a-uuid''"
  by code_simp+

lemma validateItems_fixtures:
  "validateItems (map json_item VALID_ITEMS) = Inr VALID_ITEMS"
  "validateItems (map json_item (one_item 1000 1)) = Inr (one_item 1000 1)"
  by code_simp+

lemma nonempty_fixtures: "CUSTOMER_ID \<noteq> []" "VALID_ITEMS \<noteq> []" "one_item u q \<noteq> []"
  by (simp_all add: CUSTOMER_ID_def VALID_ITEMS_def one_item_def)

lemma validateRequest_fixtures:
  "validateRequest (request_body CART_ID CUSTOMER_ID VALID_ITEMS) = Ok_true valid_request"
  "validateRequest (request_body CART_ID CUSTOMER_ID (one_item 1000 1)) = Ok_true other_request"
  "validateRequest (request_body MIXED_CASE_CART_ID CUSTOMER_ID VALID_ITEMS) =
     Ok_true \<lparr>CheckoutRequest.cartId = MIXED_CASE_CART_ID,
              CheckoutRequest.customerId = CUSTOMER_ID, CheckoutRequest.items = VALID_ITEMS\<rparr>"
  unfolding valid_request_def other_request_def
  by (intro validateRequest_request_body uuid_shape_fixtures nonempty_fixtures
        validateItems_fixtures)+

lemma request_cartIds:
  "CheckoutRequest.cartId valid_request = CART_ID"
  "CheckoutRequest.cartId other_request = CART_ID"
  by (simp_all add: valid_request_def other_request_def)

section \<open>Claims on the validation\<close>

text \<open>
  C10. When the \<^verbatim>\<open>cartId\<close> of the body is a string of the 8-4-4-4-12 hyphenated
  hexadecimal shape, in upper, lower or mixed case, \<^verbatim>\<open>validateRequest\<close> raises neither of its
  two \<^verbatim>\<open>cartId\<close> failures; when it is a string of any other shape, the result is one of the
  two; and an accepted request carries that string as its \<^verbatim>\<open>cartId\<close>.
\<close>

theorem cartId_accepted_iff_uuid_shape:
  assumes "field b ''cartId'' = Some (JStr s)"
  shows "(uuid_shape s \<longrightarrow>
            validateRequest b \<noteq> Ok_false ''Missing or invalid cartId'' \<and>
            validateRequest b \<noteq> Ok_false ''cartId must be a valid UUID'') \<and>
         (\<not> uuid_shape s \<longrightarrow>
            validateRequest b = Ok_false ''Missing or invalid cartId'' \<or>
            validateRequest b = Ok_false ''cartId must be a valid UUID'') \<and>
         (\<forall>req. validateRequest b = Ok_true req \<longrightarrow> CheckoutRequest.cartId req = s)"
proof -
  from assms obtain raw where raw: "b = JObj raw" and c: "get_prop raw ''cartId'' = Some (JStr s)"
    by (cases b) simp_all
  have e: "s = [] \<Longrightarrow> \<not> uuid_shape s"
    by (simp add: uuid_shape_def)
  show ?thesis
    unfolding raw validateRequest_def
    using e cartId_messages_not_item
    by (auto simp: c UUID_RE_test split: option.splits sum.splits
             dest: validateItems_item_messages)
qed

text \<open>A mixed-case UUID is accepted, a string of another shape is refused.\<close>

theorem cartId_accepted_iff_uuid_shape_witness:
  "field (request_body MIXED_CASE_CART_ID CUSTOMER_ID VALID_ITEMS) ''cartId''
     = Some (JStr MIXED_CASE_CART_ID) \<and>
   uuid_shape MIXED_CASE_CART_ID \<and>
   validateRequest (request_body MIXED_CASE_CART_ID CUSTOMER_ID VALID_ITEMS)
     \<noteq> Ok_false ''Missing or invalid cartId'' \<and>
   validateRequest (request_body MIXED_CASE_CART_ID CUSTOMER_ID VALID_ITEMS)
     \<noteq> Ok_false ''cartId must be a valid UUID'' \<and>
   field (request_body ''not-a-uuid'' CUSTOMER_ID VALID_ITEMS) ''cartId''
     = Some (JStr ''not-a-uuid'') \<and>
   \<not> uuid_shape ''not-a-uuid'' \<and>
   (validateRequest (request_body ''not-a-uuid'' CUSTOMER_ID VALID_ITEMS)
      = Ok_false ''Missing or invalid cartId'' \<or>
    validateRequest (request_body ''not-a-uuid'' CUSTOMER_ID VALID_ITEMS)
      = Ok_false ''cartId must be a valid UUID'')"
proof -
  have f: "field (request_body MIXED_CASE_CART_ID CUSTOMER_ID VALID_ITEMS) ''cartId''
             = Some (JStr MIXED_CASE_CART_ID)"
    and g: "field (request_body ''not-a-uuid'' CUSTOMER_ID VALID_ITEMS) ''cartId''
             = Some (JStr ''not-a-uuid'')"
    by (simp_all add: request_body_def get_prop_def)
  note u = uuid_shape_fixtures(2) and n = uuid_shape_fixtures(3)
  note A = cartId_accepted_iff_uuid_shape [OF f, THEN conjunct1, rule_format, OF u]
  note B = cartId_accepted_iff_uuid_shape [OF g, THEN conjunct2, THEN conjunct1, rule_format, OF n]
  from f u A g n B show ?thesis by (intro conjI) blast+
qed


text \<open>
  C5. When the parsed body has an empty \<^verbatim>\<open>items\<close> array, or no \<^verbatim>\<open>cartId\<close>, or no
  \<^verbatim>\<open>customerId\<close>, or an item whose \<^verbatim>\<open>unitPrice\<close> is not positive, or an item whose
  \<^verbatim>\<open>quantity\<close> is below 1, the handler answers 400 with error \<^verbatim>\<open>VALIDATION_ERROR\<close> and one
  of the messages of the validation, leaves the world as it is and calls nothing: its
  trace is empty.
\<close>

theorem validation_failure_no_calls:
  assumes p: "JSON_parse P (case event_body of None \<Rightarrow> [] | Some s \<Rightarrow> s) = Some b"
    and d: "field b ''items'' = Some (JArr []) \<or> field b ''cartId'' = None \<or>
            field b ''customerId'' = None \<or> has_item unitPrice_nonpositive b \<or>
            has_item quantity_below_one b"
  shows "\<exists>message \<in> set validation_messages.
           handler P event_body w =
             (\<lparr>statusCode = 400, headers = [(''Content-Type'', ''application/json'')],
               body = Error_body ''VALIDATION_ERROR'' message\<rparr>, w, [])"
proof -
  have "validateRequest b \<noteq> Ok_true req" for req
  proof
    assume "validateRequest b = Ok_true req"
    then obtain raw its where b: "b = JObj raw"
      and c: "get_prop raw ''cartId'' = Some (JStr (CheckoutRequest.cartId req))"
      and cu: "get_prop raw ''customerId'' = Some (JStr (CheckoutRequest.customerId req))"
      and i: "get_prop raw ''items'' = Some (JArr its)" "its \<noteq> []"
      and v: "validateItems its = Inr (CheckoutRequest.items req)"
      by (rule validateRequest_Ok_true)
    from validateItems_Inr(3,4) [OF v] d show False
      by (simp add: b c cu i has_item_def)
  qed
  then obtain message where m: "validateRequest b = Ok_false message"
    by (cases "validateRequest b") auto
  then have "message \<in> set validation_messages"
    by (rule validateRequest_messages)
  moreover have "handler P event_body w = (validationError message, w, [])"
    by (simp add: handler_def p m)
  ultimately show ?thesis
    unfolding validationError_def by blast
qed

text \<open>One body of the tests for each of the five defects.\<close>

theorem validation_failure_no_calls_witness:
  "JSON_parse fixture_platform (case Some body_AC1 of None \<Rightarrow> [] | Some s \<Rightarrow> s)
     = Some (request_body CART_ID CUSTOMER_ID []) \<and>
   (field (request_body CART_ID CUSTOMER_ID []) ''items'' = Some (JArr []) \<or>
    field (request_body CART_ID CUSTOMER_ID []) ''cartId'' = None \<or>
    field (request_body CART_ID CUSTOMER_ID []) ''customerId'' = None \<or>
    has_item unitPrice_nonpositive (request_body CART_ID CUSTOMER_ID []) \<or>
    has_item quantity_below_one (request_body CART_ID CUSTOMER_ID [])) \<and>
   (\<exists>message \<in> set validation_messages.
      handler fixture_platform (Some body_AC1) [] =
        (\<lparr>statusCode = 400, headers = [(''Content-Type'', ''application/json'')],
          body = Error_body ''VALIDATION_ERROR'' message\<rparr>, [], [])) \<and>
   JSON_parse fixture_platform (case Some body_AC2 of None \<Rightarrow> [] | Some s \<Rightarrow> s)
     = Some (JObj [(''customerId'', JStr CUSTOMER_ID), (''items'', JArr (map json_item (one_item 1000 1)))]) \<and>
   (field (JObj [(''customerId'', JStr CUSTOMER_ID), (''items'', JArr (map json_item (one_item 1000 1)))]) ''items'' = Some (JArr []) \<or>
    field (JObj [(''customerId'', JStr CUSTOMER_ID), (''items'', JArr (map json_item (one_item 1000 1)))]) ''cartId'' = None \<or>
    field (JObj [(''customerId'', JStr CUSTOMER_ID), (''items'', JArr (map json_item (one_item 1000 1)))]) ''customerId'' = None \<or>
    has_item unitPrice_nonpositive (JObj [(''customerId'', JStr CUSTOMER_ID), (''items'', JArr (map json_item (one_item 1000 1)))]) \<or>
    has_item quantity_below_one (JObj [(''customerId'', JStr CUSTOMER_ID), (''items'', JArr (map json_item (one_item 1000 1)))])) \<and>
   (\<exists>message \<in> set validation_messages.
      handler fixture_platform (Some body_AC2) [] =
        (\<lparr>statusCode = 400, headers = [(''Content-Type'', ''application/json'')],
          body = Error_body ''VALIDATION_ERROR'' message\<rparr>, [], [])) \<and>
   JSON_parse fixture_platform (case Some body_AC3 of None \<Rightarrow> [] | Some s \<Rightarrow> s)
     = Some (JObj [(''cartId'', JStr CART_ID), (''items'', JArr (map json_item (one_item 1000 1)))]) \<and>
   (field (JObj [(''cartId'', JStr CART_ID), (''items'', JArr (map json_item (one_item 1000 1)))]) ''items'' = Some (JArr []) \<or>
    field (JObj [(''cartId'', JStr CART_ID), (''items'', JArr (map json_item (one_item 1000 1)))]) ''cartId'' = None \<or>
    field (JObj [(''cartId'', JStr CART_ID), (''items'', JArr (map json_item (one_item 1000 1)))]) ''customerId'' = None \<or>
    has_item unitPrice_nonpositive (JObj [(''cartId'', JStr CART_ID), (''items'', JArr (map json_item (one_item 1000 1)))]) \<or>
    has_item quantity_below_one (JObj [(''cartId'', JStr CART_ID), (''items'', JArr (map json_item (one_item 1000 1)))])) \<and>
   (\<exists>message \<in> set validation_messages.
      handler fixture_platform (Some body_AC3) [] =
        (\<lparr>statusCode = 400, headers = [(''Content-Type'', ''application/json'')],
          body = Error_body ''VALIDATION_ERROR'' message\<rparr>, [], [])) \<and>
   JSON_parse fixture_platform (case Some body_AC4 of None \<Rightarrow> [] | Some s \<Rightarrow> s)
     = Some (request_body CART_ID CUSTOMER_ID (one_item 0 1)) \<and>
   (field (request_body CART_ID CUSTOMER_ID (one_item 0 1)) ''items'' = Some (JArr []) \<or>
    field (request_body CART_ID CUSTOMER_ID (one_item 0 1)) ''cartId'' = None \<or>
    field (request_body CART_ID CUSTOMER_ID (one_item 0 1)) ''customerId'' = None \<or>
    has_item unitPrice_nonpositive (request_body CART_ID CUSTOMER_ID (one_item 0 1)) \<or>
    has_item quantity_below_one (request_body CART_ID CUSTOMER_ID (one_item 0 1))) \<and>
   (\<exists>message \<in> set validation_messages.
      handler fixture_platform (Some body_AC4) [] =
        (\<lparr>statusCode = 400, headers = [(''Content-Type'', ''application/json'')],
          body = Error_body ''VALIDATION_ERROR'' message\<rparr>, [], [])) \<and>
   JSON_parse fixture_platform (case Some body_AC5 of None \<Rightarrow> [] | Some s \<Rightarrow> s)
     = Some (request_body CART_ID CUSTOMER_ID (one_item 1000 0)) \<and>
   (field (request_body CART_ID CUSTOMER_ID (one_item 1000 0)) ''items'' = Some (JArr []) \<or>
    field (request_body CART_ID CUSTOMER_ID (one_item 1000 0)) ''cartId'' = None \<or>
    field (request_body CART_ID CUSTOMER_ID (one_item 1000 0)) ''customerId'' = None \<or>
    has_item unitPrice_nonpositive (request_body CART_ID CUSTOMER_ID (one_item 1000 0)) \<or>
    has_item quantity_below_one (request_body CART_ID CUSTOMER_ID (one_item 1000 0))) \<and>
   (\<exists>message \<in> set validation_messages.
      handler fixture_platform (Some body_AC5) [] =
        (\<lparr>statusCode = 400, headers = [(''Content-Type'', ''application/json'')],
          body = Error_body ''VALIDATION_ERROR'' message\<rparr>, [], []))"
proof -
  have p1: "JSON_parse fixture_platform (case Some body_AC1 of None \<Rightarrow> [] | Some s \<Rightarrow> s)
     = Some (request_body CART_ID CUSTOMER_ID [])"
    by (simp add: fixture_platform_parse fixture_parse_bodies)
  have d1: "(field (request_body CART_ID CUSTOMER_ID []) ''items'' = Some (JArr []) \<or>
    field (request_body CART_ID CUSTOMER_ID []) ''cartId'' = None \<or>
    field (request_body CART_ID CUSTOMER_ID []) ''customerId'' = None \<or>
    has_item unitPrice_nonpositive (request_body CART_ID CUSTOMER_ID []) \<or>
    has_item quantity_below_one (request_body CART_ID CUSTOMER_ID []))"
    by code_simp
  note c1 = validation_failure_no_calls [OF p1 d1, of "[]"]
  have p2: "JSON_parse fixture_platform (case Some body_AC2 of None \<Rightarrow> [] | Some s \<Rightarrow> s)
     = Some (JObj [(''customerId'', JStr CUSTOMER_ID), (''items'', JArr (map json_item (one_item 1000 1)))])"
    by (simp add: fixture_platform_parse fixture_parse_bodies)
  have d2: "(field (JObj [(''customerId'', JStr CUSTOMER_ID), (''items'', JArr (map json_item (one_item 1000 1)))]) ''items'' = Some (JArr []) \<or>
    field (JObj [(''customerId'', JStr CUSTOMER_ID), (''items'', JArr (map json_item (one_item 1000 1)))]) ''cartId'' = None \<or>
    field (JObj [(''customerId'', JStr CUSTOMER_ID), (''items'', JArr (map json_item (one_item 1000 1)))]) ''customerId'' = None \<or>
    has_item unitPrice_nonpositive (JObj [(''customerId'', JStr CUSTOMER_ID), (''items'', JArr (map json_item (one_item 1000 1)))]) \<or>
    has_item quantity_below_one (JObj [(''customerId'', JStr CUSTOMER_ID), (''items'', JArr (map json_item (one_item 1000 1)))]))"
    by code_simp
  note c2 = validation_failure_no_calls [OF p2 d2, of "[]"]
  have p3: "JSON_parse fixture_platform (case Some body_AC3 of None \<Rightarrow> [] | Some s \<Rightarrow> s)
     = Some (JObj [(''cartId'', JStr CART_ID), (''items'', JArr (map json_item (one_item 1000 1)))])"
    by (simp add: fixture_platform_parse fixture_parse_bodies)
  have d3: "(field (JObj [(''cartId'', JStr CART_ID), (''items'', JArr (map json_item (one_item 1000 1)))]) ''items'' = Some (JArr []) \<or>
    field (JObj [(''cartId'', JStr CART_ID), (''items'', JArr (map json_item (one_item 1000 1)))]) ''cartId'' = None \<or>
    field (JObj [(''cartId'', JStr CART_ID), (''items'', JArr (map json_item (one_item 1000 1)))]) ''customerId'' = None \<or>
    has_item unitPrice_nonpositive (JObj [(''cartId'', JStr CART_ID), (''items'', JArr (map json_item (one_item 1000 1)))]) \<or>
    has_item quantity_below_one (JObj [(''cartId'', JStr CART_ID), (''items'', JArr (map json_item (one_item 1000 1)))]))"
    by code_simp
  note c3 = validation_failure_no_calls [OF p3 d3, of "[]"]
  have p4: "JSON_parse fixture_platform (case Some body_AC4 of None \<Rightarrow> [] | Some s \<Rightarrow> s)
     = Some (request_body CART_ID CUSTOMER_ID (one_item 0 1))"
    by (simp add: fixture_platform_parse fixture_parse_bodies)
  have d4: "(field (request_body CART_ID CUSTOMER_ID (one_item 0 1)) ''items'' = Some (JArr []) \<or>
    field (request_body CART_ID CUSTOMER_ID (one_item 0 1)) ''cartId'' = None \<or>
    field (request_body CART_ID CUSTOMER_ID (one_item 0 1)) ''customerId'' = None \<or>
    has_item unitPrice_nonpositive (request_body CART_ID CUSTOMER_ID (one_item 0 1)) \<or>
    has_item quantity_below_one (request_body CART_ID CUSTOMER_ID (one_item 0 1)))"
    by code_simp
  note c4 = validation_failure_no_calls [OF p4 d4, of "[]"]
  have p5: "JSON_parse fixture_platform (case Some body_AC5 of None \<Rightarrow> [] | Some s \<Rightarrow> s)
     = Some (request_body CART_ID CUSTOMER_ID (one_item 1000 0))"
    by (simp add: fixture_platform_parse fixture_parse_bodies)
  have d5: "(field (request_body CART_ID CUSTOMER_ID (one_item 1000 0)) ''items'' = Some (JArr []) \<or>
    field (request_body CART_ID CUSTOMER_ID (one_item 1000 0)) ''cartId'' = None \<or>
    field (request_body CART_ID CUSTOMER_ID (one_item 1000 0)) ''customerId'' = None \<or>
    has_item unitPrice_nonpositive (request_body CART_ID CUSTOMER_ID (one_item 1000 0)) \<or>
    has_item quantity_below_one (request_body CART_ID CUSTOMER_ID (one_item 1000 0)))"
    by code_simp
  note c5 = validation_failure_no_calls [OF p5 d5, of "[]"]
  from p1 d1 c1 p2 d2 c2 p3 d3 c3 p4 d4 c4 p5 d5 c5 show ?thesis by (intro conjI)
qed


text \<open>
  C9. When \<^verbatim>\<open>JSON.parse\<close> throws on the body, the handler answers 400 with the message
  \<^verbatim>\<open>Invalid JSON body\<close>, not 500, and calls nothing. An absent body is parsed as the empty
  string, so this is also the answer to an event without body, \<^verbatim>\<open>JSON.parse\<close> throwing on
  the empty string.
\<close>

theorem invalid_json_body:
  "(JSON_parse P [] = None \<longrightarrow>
      handler P None w =
        (\<lparr>statusCode = 400, headers = [(''Content-Type'', ''application/json'')],
          body = Error_body ''VALIDATION_ERROR'' ''Invalid JSON body''\<rparr>, w, [])) \<and>
   (JSON_parse P s = None \<longrightarrow>
      handler P (Some s) w =
        (\<lparr>statusCode = 400, headers = [(''Content-Type'', ''application/json'')],
          body = Error_body ''VALIDATION_ERROR'' ''Invalid JSON body''\<rparr>, w, [])) \<and>
   handler P None w = handler P (Some []) w"
  by (simp add: handler_def validationError_def)

text \<open>An event without body and an event whose body is no JSON text.\<close>

theorem invalid_json_body_witness:
  "JSON_parse fixture_platform [] = None \<and>
   JSON_parse fixture_platform ''{not json'' = None \<and>
   handler fixture_platform None [] =
     (\<lparr>statusCode = 400, headers = [(''Content-Type'', ''application/json'')],
       body = Error_body ''VALIDATION_ERROR'' ''Invalid JSON body''\<rparr>, [], []) \<and>
   handler fixture_platform (Some ''{not json'') [] =
     (\<lparr>statusCode = 400, headers = [(''Content-Type'', ''application/json'')],
       body = Error_body ''VALIDATION_ERROR'' ''Invalid JSON body''\<rparr>, [], [])"
proof -
  have a: "JSON_parse fixture_platform [] = None"
    and b: "JSON_parse fixture_platform ''{not json'' = None"
    by (simp_all add: fixture_platform_parse fixture_parse_bodies)
  note T = invalid_json_body [of fixture_platform "[]" "''{not json''"]
  from a b T [THEN conjunct1, rule_format, OF a] T [THEN conjunct2, THEN conjunct1, rule_format, OF b]
  show ?thesis by (intro conjI)
qed


section \<open>Paths of the handler\<close>

lemma handler_valid:
  assumes "JSON_parse P (case event_body of None \<Rightarrow> [] | Some s \<Rightarrow> s) = Some b"
    and "validateRequest b = Ok_true req"
  shows "handler P event_body w =
           (case checkout P req w of
              (Inr res, w', evs) \<Rightarrow> (res, w', evs)
            | (Inl err, w', evs) \<Rightarrow>
                (internalError, w', evs @ [log_error (CheckoutRequest.cartId req) err]))"
  using assms by (simp add: handler_def)

lemma checkout_probe_hit:
  assumes "send_Get P (CheckoutRequest.cartId req) w = (Inr (Some existing), w')"
  shows "checkout P req w =
           (Inr (ok existing), w',
            [log_checkout ''checkout.start'' (CheckoutRequest.cartId req) None,
             Client_Get (CheckoutRequest.cartId req) (Inr (Some existing)),
             log_checkout ''checkout.duplicate'' (CheckoutRequest.cartId req)
               (Some (Order.orderId existing))])"
  using assms by (simp add: checkout_def getOrderByCartId_def Let_def)

lemma checkout_probe_throws:
  assumes "send_Get P (CheckoutRequest.cartId req) w = (Inl e, w')"
  shows "checkout P req w =
           (Inl e, w',
            [log_checkout ''checkout.start'' (CheckoutRequest.cartId req) None,
             Client_Get (CheckoutRequest.cartId req) (Inl e)])"
  using assms by (simp add: checkout_def getOrderByCartId_def Let_def)

lemma checkout_probe_miss:
  assumes "send_Get P (CheckoutRequest.cartId req) w = (Inr None, w1)"
    and "randomUUID P w1 = (uuid, w2)" and "toISOString_now P w2 = (now, w3)"
    and "ord = new_order req (calculatePricing (CheckoutRequest.items req)) uuid now"
    and "createOrder P ord w3 = (r, w4, ev2)"
  shows "checkout P req w =
           (let cid = CheckoutRequest.cartId req;
                pre = [log_checkout ''checkout.start'' cid None, Client_Get cid (Inr None)]
            in case r of
                 Inl e \<Rightarrow> (Inl e, w4, pre @ ev2)
               | Inr result \<Rightarrow>
                   if \<not> created result
                   then (Inr (ok (order result)), w4,
                         pre @ ev2 @ [log_checkout ''checkout.duplicate'' cid
                                        (Some (Order.orderId (order result)))])
                   else (Inr (ok ord), w4,
                         pre @ ev2 @ capturePayment (Order.orderId ord) (Order.total ord) @
                         [log_checkout ''checkout.complete'' cid (Some (Order.orderId ord))]))"
  using assms(1,2,3,5) unfolding assms(4)
  by (simp add: checkout_def getOrderByCartId_def Let_def split: sum.splits)

lemma createOrder_accepted:
  assumes "send_Put P ord w = (Inr u, w1)"
  shows "createOrder P ord w = (Inr \<lparr>created = True, order = ord\<rparr>, w1, [Client_Put ord (Inr u)])"
  using assms by (simp add: createOrder_def)

lemma createOrder_conflict:
  assumes "send_Put P ord w = (Inl (ConditionalCheckFailedException m), w1)"
    and "send_Get P (Order.cartId ord) w1 = (g, w2)"
  shows "createOrder P ord w =
           (case g of
              Inl e \<Rightarrow> Inl e
            | Inr None \<Rightarrow>
                Inl (Error (''Idempotency check failed: order for cartId ''
                            @ Order.cartId ord @ '' not found after conflict''))
            | Inr (Some existing) \<Rightarrow> Inr \<lparr>created = False, order = existing\<rparr>,
            w2,
            [Client_Put ord (Inl (ConditionalCheckFailedException m)),
             Client_Get (Order.cartId ord) g])"
  using assms
  by (simp add: createOrder_def getOrderByCartId_def split: sum.splits option.splits)

lemma createOrder_throws:
  assumes "send_Put P ord w = (Inl e, w1)" and "\<forall>m. e \<noteq> ConditionalCheckFailedException m"
  shows "createOrder P ord w = (Inl e, w1, [Client_Put ord (Inl e)])"
  using assms by (cases e) (simp_all add: createOrder_def)

lemma captures_after_creation_quiet:
  "list_all (\<lambda>e. \<not> is_capture_call e) tr \<Longrightarrow> captures_after_creation seen tr"
proof (induction tr arbitrary: seen)
  case Nil
  show ?case by simp
next
  case (Cons e tr)
  then show ?case by (cases e) simp_all
qed

lemma quiet_discipline:
  assumes "quiet tr"
  shows "capture_discipline tr"
proof -
  from assms have c: "list_all (\<lambda>e. \<not> is_capture_call e) tr"
    and p: "list_all (\<lambda>e. \<not> is_accepted_put e) tr"
    by (simp_all add: quiet_def list_all_iff)
  from c have "filter is_capture_call tr = []" "\<not> list_ex is_capture_call tr"
    by (simp_all add: list_all_iff list_ex_iff filter_empty_conv)
  moreover from p have "filter is_accepted_put tr = []"
    by (simp add: list_all_iff filter_empty_conv)
  ultimately show ?thesis
    using captures_after_creation_quiet [OF c] by (simp add: capture_discipline_def)
qed

lemma quiet_simps:
  "quiet []"
  "quiet (log_checkout a c oid # tr) = quiet tr"
  "quiet (log_error c e # tr) = quiet tr"
  "quiet (Client_Get c g # tr) = quiet tr"
  "quiet (Client_Put ord (Inl e) # tr) = quiet tr"
  "quiet (xs @ ys) = (quiet xs \<and> quiet ys)"
  by (simp_all add: quiet_def log_checkout_def log_error_def)

lemma creation_discipline: "capture_discipline (creation_trace cid ord u)"
  by (simp add: capture_discipline_def creation_trace_def capturePayment_def log_checkout_def)

lemma createOrder_trace:
  assumes "createOrder P ord w = (r, w', evs)"
  shows "(\<exists>u. r = Inr \<lparr>created = True, order = ord\<rparr> \<and> evs = [Client_Put ord (Inr u)]) \<or>
         ((\<forall>res. r = Inr res \<longrightarrow> \<not> created res) \<and> quiet evs)"
proof -
  obtain p w1 where p: "send_Put P ord w = (p, w1)" by (cases "send_Put P ord w")
  show ?thesis
  proof (cases p)
    case (Inr u)
    with createOrder_accepted [of P ord w u w1] p assms show ?thesis by simp
  next
    case (Inl e)
    show ?thesis
    proof (cases "\<exists>m. e = ConditionalCheckFailedException m")
      case True
      then obtain m where m: "e = ConditionalCheckFailedException m" ..
      obtain g w2 where g: "send_Get P (Order.cartId ord) w1 = (g, w2)"
        by (cases "send_Get P (Order.cartId ord) w1")
      from createOrder_conflict [OF p [unfolded Inl m] g] assms show ?thesis
        by (auto simp: quiet_simps split: sum.splits option.splits)
    next
      case False
      with createOrder_throws [OF p [unfolded Inl]] assms show ?thesis
        by (auto simp: quiet_simps)
    qed
  qed
qed

lemma checkout_trace:
  assumes "checkout P req w = (r, w', tr)"
  shows "quiet tr \<or>
         (\<exists>ord u. r = Inr (ok ord) \<and> tr = creation_trace (CheckoutRequest.cartId req) ord u)"
proof -
  obtain g w1 where g: "send_Get P (CheckoutRequest.cartId req) w = (g, w1)"
    by (cases "send_Get P (CheckoutRequest.cartId req) w")
  show ?thesis
  proof (cases g)
    case (Inl e)
    from checkout_probe_throws [OF g [unfolded Inl]] assms show ?thesis
      by (auto simp: quiet_simps)
  next
    case (Inr found)
    show ?thesis
    proof (cases found)
      case (Some existing)
      from checkout_probe_hit [OF g [unfolded Inr Some]] assms show ?thesis
        by (auto simp: quiet_simps)
    next
      case None
      obtain uuid w2 where u: "randomUUID P w1 = (uuid, w2)" by (cases "randomUUID P w1")
      obtain now w3 where n: "toISOString_now P w2 = (now, w3)"
        by (cases "toISOString_now P w2")
      define ord where "ord = new_order req (calculatePricing (CheckoutRequest.items req)) uuid now"
      obtain c w4 ev2 where c: "createOrder P ord w3 = (c, w4, ev2)"
        by (cases "createOrder P ord w3")
      note co = checkout_probe_miss [OF g [unfolded Inr None] u n ord_def c]
      from createOrder_trace [OF c] show ?thesis
      proof
        assume "\<exists>u. c = Inr \<lparr>created = True, order = ord\<rparr> \<and> ev2 = [Client_Put ord (Inr u)]"
        then obtain u where "c = Inr \<lparr>created = True, order = ord\<rparr>"
          and "ev2 = [Client_Put ord (Inr u)]" by blast
        with co assms have "r = Inr (ok ord)"
          and "tr = creation_trace (CheckoutRequest.cartId req) ord u"
          by (simp_all add: Let_def creation_trace_def)
        then show ?thesis by blast
      next
        assume q: "(\<forall>res. c = Inr res \<longrightarrow> \<not> created res) \<and> quiet ev2"
        with co assms have "quiet tr"
          by (cases c) (auto simp: Let_def quiet_simps)
        then show ?thesis ..
      qed
    qed
  qed
qed

lemma new_order_cartId [simp]:
  "Order.cartId (new_order req pricing uuid now) = CheckoutRequest.cartId req"
  by (simp add: new_order_def)

lemma table_platform_simps [simp]:
  "JSON_parse (table_platform parse uuid now) = parse"
  "randomUUID (table_platform parse uuid now) t = (uuid, t)"
  "toISOString_now (table_platform parse uuid now) t = (now, t)"
  "send_Get (table_platform parse uuid now) cid t = (Inr (map_of t cid), t)"
  "send_Put (table_platform parse uuid now) = table_Put"
  by (simp_all add: table_platform_def table_Get_def)

lemma table_checkout_creates:
  assumes "map_of t (CheckoutRequest.cartId req) = None"
    and "ord = new_order req (calculatePricing (CheckoutRequest.items req)) uuid now"
  shows "checkout (table_platform parse uuid now) req t =
           (Inr (ok ord), (CheckoutRequest.cartId req, ord) # t,
            creation_trace (CheckoutRequest.cartId req) ord ())"
proof -
  have g: "send_Get (table_platform parse uuid now) (CheckoutRequest.cartId req) t = (Inr None, t)"
    using assms(1) by simp
  have "send_Put (table_platform parse uuid now) ord t
        = (Inr (), (CheckoutRequest.cartId req, ord) # t)"
    using assms by (simp add: table_Put_def)
  from createOrder_accepted [OF this]
       checkout_probe_miss [OF g table_platform_simps(2) table_platform_simps(3) assms(2)]
  show ?thesis
    by (simp add: Let_def creation_trace_def)
qed

section \<open>Runs on the fixtures\<close>

lemma first_order_fields:
  "Order.cartId first_order = CART_ID" "Order.orderId first_order = fixture_uuid"
  by (simp_all add: first_order_def new_order_def valid_request_def)

lemma valid_request_items: "CheckoutRequest.items valid_request = VALID_ITEMS"
  by (simp add: valid_request_def)

lemma run_create:
  "handler fixture_platform (Some body_AC6) [] =
     (ok first_order, [(CART_ID, first_order)], creation_trace CART_ID first_order ())"
proof -
  have p: "JSON_parse fixture_platform (case Some body_AC6 of None \<Rightarrow> [] | Some s \<Rightarrow> s)
             = Some (request_body CART_ID CUSTOMER_ID VALID_ITEMS)"
    by (simp add: fixture_platform_parse fixture_parse_bodies)
  have "map_of ([] :: table) (CheckoutRequest.cartId valid_request) = None" by simp
  from table_checkout_creates [OF this refl, of fixture_parse fixture_uuid fixture_now]
       handler_valid [OF p validateRequest_fixtures(1), of "[]"]
  show ?thesis
    by (simp add: fixture_platform_def first_order_def request_cartIds valid_request_items)
qed

lemma run_hit:
  "handler fixture_platform_2 (Some body_other_items) [(CART_ID, first_order)] =
     (ok first_order, [(CART_ID, first_order)],
      [log_checkout ''checkout.start'' CART_ID None,
       Client_Get CART_ID (Inr (Some first_order)),
       log_checkout ''checkout.duplicate'' CART_ID (Some fixture_uuid)])"
proof -
  have p: "JSON_parse fixture_platform_2
             (case Some body_other_items of None \<Rightarrow> [] | Some s \<Rightarrow> s)
             = Some (request_body CART_ID CUSTOMER_ID (one_item 1000 1))"
    by (simp add: fixture_platform_parse fixture_parse_bodies)
  have "send_Get fixture_platform_2 (CheckoutRequest.cartId other_request)
          [(CART_ID, first_order)] = (Inr (Some first_order), [(CART_ID, first_order)])"
    by (simp add: fixture_platform_2_def request_cartIds)
  from checkout_probe_hit [OF this]
       handler_valid [OF p validateRequest_fixtures(2), of "[(CART_ID, first_order)]"]
  show ?thesis
    by (simp add: request_cartIds first_order_fields)
qed

lemma run_race:
  "handler racing_platform (Some body_AC6) ([], Some first_order) =
     (ok first_order, ([(CART_ID, first_order)], None),
      [log_checkout ''checkout.start'' CART_ID None,
       Client_Get CART_ID (Inr None),
       Client_Put losing_order
         (Inl (ConditionalCheckFailedException ''The conditional request failed'')),
       Client_Get CART_ID (Inr (Some first_order)),
       log_checkout ''checkout.duplicate'' CART_ID (Some fixture_uuid)])"
proof -
  have p: "JSON_parse racing_platform (case Some body_AC6 of None \<Rightarrow> [] | Some s \<Rightarrow> s)
             = Some (request_body CART_ID CUSTOMER_ID VALID_ITEMS)"
    by (simp add: fixture_platform_parse fixture_parse_bodies)
  let ?w1 = "([(CART_ID, first_order)], None :: Order option)"
  have g: "send_Get racing_platform (CheckoutRequest.cartId valid_request) ([], Some first_order)
           = (Inr None, ?w1)"
    by (simp add: racing_platform_def first_order_fields)
  have u: "randomUUID racing_platform ?w1 = (fixture_uuid_2, ?w1)"
    and n: "toISOString_now racing_platform ?w1 = (fixture_now, ?w1)"
    by (simp_all add: racing_platform_def)
  have o: "losing_order = new_order valid_request
             (calculatePricing (CheckoutRequest.items valid_request)) fixture_uuid_2 fixture_now"
    by (simp add: losing_order_def valid_request_items)
  have lc: "Order.cartId losing_order = CART_ID"
    by (simp add: losing_order_def request_cartIds)
  have put: "send_Put racing_platform losing_order ?w1
             = (Inl (ConditionalCheckFailedException ''The conditional request failed''), ?w1)"
    by (simp add: racing_platform_def table_Put_def lc)
  have g2: "send_Get racing_platform (Order.cartId losing_order) ?w1
            = (Inr (Some first_order), ?w1)"
    by (simp add: racing_platform_def lc)
  from checkout_probe_miss [OF g u n o createOrder_conflict [OF put g2]]
       handler_valid [OF p validateRequest_fixtures(1), of "([], Some first_order)"]
  show ?thesis
    by (simp add: Let_def lc request_cartIds first_order_fields)
qed

section \<open>Claims on the handler\<close>

text \<open>
  C2. In every run of the handler, whatever the body, the platform and the table do,
  every call of \<^verbatim>\<open>capturePayment\<close> comes after the table accepted the write of the order
  with the captured id and total; there is one capture call for each accepted write and
  at most one in the run; and a run in which a read found a record (the idempotency probe
  or the read after a refused write) or in which the write was refused has no capture
  call.
\<close>

theorem capture_only_after_creation:
  "capture_discipline (snd (snd (handler P event_body w)))"
proof (cases "JSON_parse P (case event_body of None \<Rightarrow> [] | Some s \<Rightarrow> s)")
  case None
  then have "snd (snd (handler P event_body w)) = []"
    by (simp add: handler_def)
  then show ?thesis by (simp add: quiet_discipline quiet_simps)
next
  case (Some b)
  show ?thesis
  proof (cases "validateRequest b")
    case (Ok_false message)
    with Some have "snd (snd (handler P event_body w)) = []"
      by (simp add: handler_def)
    then show ?thesis by (simp add: quiet_discipline quiet_simps)
  next
    case (Ok_true req)
    obtain r w' tr where c: "checkout P req w = (r, w', tr)"
      by (cases "checkout P req w")
    note h = handler_valid [OF Some Ok_true, of w, unfolded c]
    from checkout_trace [OF c] show ?thesis
    proof
      assume "quiet tr"
      with h have "quiet (snd (snd (handler P event_body w)))"
        by (cases r) (simp_all add: quiet_simps)
      then show ?thesis by (rule quiet_discipline)
    next
      assume "\<exists>ord u. r = Inr (ok ord) \<and> tr = creation_trace (CheckoutRequest.cartId req) ord u"
      then obtain ord u where "r = Inr (ok ord)"
        and "tr = creation_trace (CheckoutRequest.cartId req) ord u" by blast
      with h show ?thesis by (simp add: creation_discipline)
    qed
  qed
qed

text \<open>
  Three runs under that discipline: one that creates the order and captures, one whose
  probe finds the order, one that loses the race for the write.
\<close>

theorem capture_only_after_creation_witness:
  "list_ex is_capture_call (snd (snd (handler fixture_platform (Some body_AC6) []))) \<and>
   capture_discipline (snd (snd (handler fixture_platform (Some body_AC6) []))) \<and>
   list_ex is_found_get
     (snd (snd (handler fixture_platform_2 (Some body_other_items) [(CART_ID, first_order)]))) \<and>
   capture_discipline
     (snd (snd (handler fixture_platform_2 (Some body_other_items) [(CART_ID, first_order)]))) \<and>
   list_ex is_refused_put
     (snd (snd (handler racing_platform (Some body_AC6) ([], Some first_order)))) \<and>
   capture_discipline
     (snd (snd (handler racing_platform (Some body_AC6) ([], Some first_order))))"
proof -
  have a: "list_ex is_capture_call (snd (snd (handler fixture_platform (Some body_AC6) [])))"
    by (simp add: run_create creation_trace_def capturePayment_def)
  have b: "list_ex is_found_get
     (snd (snd (handler fixture_platform_2 (Some body_other_items) [(CART_ID, first_order)])))"
    by (simp add: run_hit)
  have c: "list_ex is_refused_put
     (snd (snd (handler racing_platform (Some body_AC6) ([], Some first_order))))"
    by (simp add: run_race)
  show ?thesis
    using a b c
      capture_only_after_creation [of fixture_platform "Some body_AC6" "[]"]
      capture_only_after_creation [of fixture_platform_2 "Some body_other_items"
        "[(CART_ID, first_order)]"]
      capture_only_after_creation [of racing_platform "Some body_AC6" "([], Some first_order)"]
    by (intro conjI)
qed

lemma checkout_twice:
  assumes p: "JSON_parse P (case event_body of None \<Rightarrow> [] | Some s \<Rightarrow> s) = Some b"
    and v: "validateRequest b = Ok_true req"
  shows "(\<forall>existing w'.
            send_Get P (CheckoutRequest.cartId req) w = (Inr (Some existing), w') \<longrightarrow>
            handler P event_body w =
              (ok existing, w',
               [log_checkout ''checkout.start'' (CheckoutRequest.cartId req) None,
                Client_Get (CheckoutRequest.cartId req) (Inr (Some existing)),
                log_checkout ''checkout.duplicate'' (CheckoutRequest.cartId req)
                  (Some (Order.orderId existing))])) \<and>
         (\<forall>first b1 req1 uuid1 now1 uuid2 now2 t.
            JSON_parse P (case first of None \<Rightarrow> [] | Some s \<Rightarrow> s) = Some b1 \<and>
            validateRequest b1 = Ok_true req1 \<and>
            CheckoutRequest.cartId req1 = CheckoutRequest.cartId req \<longrightarrow>
            (\<exists>o1 t1 tr1.
               handler (table_platform (JSON_parse P) uuid1 now1) first t = (ok o1, t1, tr1) \<and>
               map_of t1 (CheckoutRequest.cartId req) = Some o1 \<and>
               handler (table_platform (JSON_parse P) uuid2 now2) event_body t1 =
                 (ok o1, t1,
                  [log_checkout ''checkout.start'' (CheckoutRequest.cartId req) None,
                   Client_Get (CheckoutRequest.cartId req) (Inr (Some o1)),
                   log_checkout ''checkout.duplicate'' (CheckoutRequest.cartId req)
                     (Some (Order.orderId o1))])))"
proof (intro conjI allI impI)
  fix existing w'
  assume "send_Get P (CheckoutRequest.cartId req) w = (Inr (Some existing), w')"
  from checkout_probe_hit [OF this] handler_valid [OF p v, of w]
  show "handler P event_body w =
          (ok existing, w',
           [log_checkout ''checkout.start'' (CheckoutRequest.cartId req) None,
            Client_Get (CheckoutRequest.cartId req) (Inr (Some existing)),
            log_checkout ''checkout.duplicate'' (CheckoutRequest.cartId req)
              (Some (Order.orderId existing))])"
    by simp
next
  fix first b1 req1 uuid1 now1 uuid2 now2 and t :: table
  assume a: "JSON_parse P (case first of None \<Rightarrow> [] | Some s \<Rightarrow> s) = Some b1 \<and>
             validateRequest b1 = Ok_true req1 \<and>
             CheckoutRequest.cartId req1 = CheckoutRequest.cartId req"
  define cid where "cid = CheckoutRequest.cartId req"
  let ?P1 = "table_platform (JSON_parse P) uuid1 now1"
  let ?P2 = "table_platform (JSON_parse P) uuid2 now2"
  from a have p1: "JSON_parse ?P1 (case first of None \<Rightarrow> [] | Some s \<Rightarrow> s) = Some b1"
    and v1: "validateRequest b1 = Ok_true req1" and c1: "CheckoutRequest.cartId req1 = cid"
    by (simp_all add: cid_def)
  have p2: "JSON_parse ?P2 (case event_body of None \<Rightarrow> [] | Some s \<Rightarrow> s) = Some b"
    using p by simp
  have second: "handler ?P2 event_body t1 =
                 (ok o1, t1,
                  [log_checkout ''checkout.start'' cid None, Client_Get cid (Inr (Some o1)),
                   log_checkout ''checkout.duplicate'' cid (Some (Order.orderId o1))])"
    if "map_of t1 cid = Some o1" for t1 o1
  proof -
    have "send_Get ?P2 (CheckoutRequest.cartId req) t1 = (Inr (Some o1), t1)"
      using that by (simp add: cid_def)
    from checkout_probe_hit [OF this] handler_valid [OF p2 v, of t1]
    show ?thesis by (simp add: cid_def)
  qed
  have "\<exists>o1 t1 tr1. handler ?P1 first t = (ok o1, t1, tr1) \<and> map_of t1 cid = Some o1"
  proof (cases "map_of t cid")
    case (Some existing)
    then have "send_Get ?P1 (CheckoutRequest.cartId req1) t = (Inr (Some existing), t)"
      by (simp add: c1)
    from checkout_probe_hit [OF this] handler_valid [OF p1 v1, of t] Some
    show ?thesis by simp
  next
    case None
    define ord where
      "ord = new_order req1 (calculatePricing (CheckoutRequest.items req1)) uuid1 now1"
    from None have "map_of t (CheckoutRequest.cartId req1) = None" by (simp add: c1)
    from table_checkout_creates [OF this ord_def, of "JSON_parse P"]
         handler_valid [OF p1 v1, of t]
    show ?thesis by (simp add: c1)
  qed
  then obtain o1 t1 tr1 where "handler ?P1 first t = (ok o1, t1, tr1)"
    and "map_of t1 cid = Some o1" by blast
  with second [OF this(2)]
  show "\<exists>o1 t1 tr1.
          handler ?P1 first t = (ok o1, t1, tr1) \<and>
          map_of t1 (CheckoutRequest.cartId req) = Some o1 \<and>
          handler ?P2 event_body t1 =
            (ok o1, t1,
             [log_checkout ''checkout.start'' (CheckoutRequest.cartId req) None,
              Client_Get (CheckoutRequest.cartId req) (Inr (Some o1)),
              log_checkout ''checkout.duplicate'' (CheckoutRequest.cartId req)
                (Some (Order.orderId o1))])"
    unfolding cid_def by blast
qed

text \<open>
  C1. When the read of the table finds an order for the \<^verbatim>\<open>cartId\<close> of a valid request,
  the handler answers 200 with that order unchanged, whatever the items of the request:
  its trace is the start log line, the one read and the duplicate log line, so no pricing
  enters the answer, nothing is written and no payment is captured. Hence, on a table with
  the conditional write, after any first checkout with a \<^verbatim>\<open>cartId\<close> a second checkout with
  the same \<^verbatim>\<open>cartId\<close> returns the order of the first, all fields equal, and leaves the
  table as it is.
\<close>

theorem idempotent_checkout:
  assumes p: "JSON_parse P (case event_body of None \<Rightarrow> [] | Some s \<Rightarrow> s) = Some b"
    and v: "validateRequest b = Ok_true req"
  shows "(\<forall>existing w'.
            send_Get P (CheckoutRequest.cartId req) w = (Inr (Some existing), w') \<longrightarrow>
            handler P event_body w =
              (\<lparr>statusCode = 200, headers = [(''Content-Type'', ''application/json'')],
                  body = Order_body existing\<rparr>, w',
               [Console_log
                  \<lparr>level = ''info'', action = ''checkout.start'',
                   LogEntry.cartId = Some (CheckoutRequest.cartId req),
                   LogEntry.orderId = None,
                   LogEntry.total = None, error = None\<rparr>,
                Client_Get (CheckoutRequest.cartId req) (Inr (Some existing)),
                Console_log
                  \<lparr>level = ''info'', action = ''checkout.duplicate'',
                   LogEntry.cartId = Some (CheckoutRequest.cartId req),
                   LogEntry.orderId = Some (Order.orderId existing),
                   LogEntry.total = None, error = None\<rparr>])) \<and>
         (\<forall>first b1 req1 uuid1 now1 uuid2 now2 t.
            JSON_parse P (case first of None \<Rightarrow> [] | Some s \<Rightarrow> s) = Some b1 \<and>
            validateRequest b1 = Ok_true req1 \<and>
            CheckoutRequest.cartId req1 = CheckoutRequest.cartId req \<longrightarrow>
            (\<exists>o1 t1 tr1.
               handler (table_platform (JSON_parse P) uuid1 now1) first t =
                 (\<lparr>statusCode = 200, headers = [(''Content-Type'', ''application/json'')],
                  body = Order_body o1\<rparr>, t1, tr1) \<and>
               map_of t1 (CheckoutRequest.cartId req) = Some o1 \<and>
               handler (table_platform (JSON_parse P) uuid2 now2) event_body t1 =
                 (\<lparr>statusCode = 200, headers = [(''Content-Type'', ''application/json'')],
                  body = Order_body o1\<rparr>, t1,
                  [Console_log
                  \<lparr>level = ''info'', action = ''checkout.start'',
                   LogEntry.cartId = Some (CheckoutRequest.cartId req),
                   LogEntry.orderId = None,
                   LogEntry.total = None, error = None\<rparr>,
                   Client_Get (CheckoutRequest.cartId req) (Inr (Some o1)),
                   Console_log
                  \<lparr>level = ''info'', action = ''checkout.duplicate'',
                   LogEntry.cartId = Some (CheckoutRequest.cartId req),
                   LogEntry.orderId = Some (Order.orderId o1),
                   LogEntry.total = None, error = None\<rparr>])))"
  using checkout_twice [OF p v, of w, unfolded ok_def log_checkout_def] .

text \<open>
  A second request for the cart of the tests, with other items, against the table that
  holds the first order; and the two calls in sequence from the empty table.
\<close>

theorem idempotent_checkout_witness:
  "JSON_parse fixture_platform_2 (case Some body_other_items of None \<Rightarrow> [] | Some s \<Rightarrow> s)
     = Some (request_body CART_ID CUSTOMER_ID (one_item 1000 1)) \<and>
   validateRequest (request_body CART_ID CUSTOMER_ID (one_item 1000 1)) = Ok_true other_request \<and>
   send_Get fixture_platform_2 (CheckoutRequest.cartId other_request) [(CART_ID, first_order)]
     = (Inr (Some first_order), [(CART_ID, first_order)]) \<and>
   handler fixture_platform_2 (Some body_other_items) [(CART_ID, first_order)] =
     (\<lparr>statusCode = 200, headers = [(''Content-Type'', ''application/json'')],
                  body = Order_body first_order\<rparr>, [(CART_ID, first_order)],
      [Console_log
                  \<lparr>level = ''info'', action = ''checkout.start'',
                   LogEntry.cartId = Some (CheckoutRequest.cartId other_request),
                   LogEntry.orderId = None,
                   LogEntry.total = None, error = None\<rparr>,
       Client_Get (CheckoutRequest.cartId other_request) (Inr (Some first_order)),
       Console_log
                  \<lparr>level = ''info'', action = ''checkout.duplicate'',
                   LogEntry.cartId = Some (CheckoutRequest.cartId other_request),
                   LogEntry.orderId = Some (Order.orderId first_order),
                   LogEntry.total = None, error = None\<rparr>]) \<and>
   JSON_parse fixture_platform_2 (case Some body_AC6 of None \<Rightarrow> [] | Some s \<Rightarrow> s)
     = Some (request_body CART_ID CUSTOMER_ID VALID_ITEMS) \<and>
   validateRequest (request_body CART_ID CUSTOMER_ID VALID_ITEMS) = Ok_true valid_request \<and>
   CheckoutRequest.cartId valid_request = CheckoutRequest.cartId other_request \<and>
   (\<exists>o1 t1 tr1.
      handler (table_platform (JSON_parse fixture_platform_2) fixture_uuid fixture_now)
        (Some body_AC6) [] =
                 (\<lparr>statusCode = 200, headers = [(''Content-Type'', ''application/json'')],
                  body = Order_body o1\<rparr>, t1, tr1) \<and>
      map_of t1 (CheckoutRequest.cartId other_request) = Some o1 \<and>
      handler (table_platform (JSON_parse fixture_platform_2) fixture_uuid_2 fixture_now)
        (Some body_other_items) t1 =
        (\<lparr>statusCode = 200, headers = [(''Content-Type'', ''application/json'')],
                  body = Order_body o1\<rparr>, t1,
         [Console_log
                  \<lparr>level = ''info'', action = ''checkout.start'',
                   LogEntry.cartId = Some (CheckoutRequest.cartId other_request),
                   LogEntry.orderId = None,
                   LogEntry.total = None, error = None\<rparr>,
          Client_Get (CheckoutRequest.cartId other_request) (Inr (Some o1)),
          Console_log
                  \<lparr>level = ''info'', action = ''checkout.duplicate'',
                   LogEntry.cartId = Some (CheckoutRequest.cartId other_request),
                   LogEntry.orderId = Some (Order.orderId o1),
                   LogEntry.total = None, error = None\<rparr>]))"
proof -
  have p: "JSON_parse fixture_platform_2
             (case Some body_other_items of None \<Rightarrow> [] | Some s \<Rightarrow> s)
             = Some (request_body CART_ID CUSTOMER_ID (one_item 1000 1))"
    by (simp add: fixture_platform_parse fixture_parse_bodies)
  note v = validateRequest_fixtures(2)
  have g: "send_Get fixture_platform_2 (CheckoutRequest.cartId other_request)
             [(CART_ID, first_order)] = (Inr (Some first_order), [(CART_ID, first_order)])"
    by (simp add: fixture_platform_2_def request_cartIds)
  have p1: "JSON_parse fixture_platform_2 (case Some body_AC6 of None \<Rightarrow> [] | Some s \<Rightarrow> s)
              = Some (request_body CART_ID CUSTOMER_ID VALID_ITEMS)"
    by (simp add: fixture_platform_parse fixture_parse_bodies)
  note v1 = validateRequest_fixtures(1)
  have c: "CheckoutRequest.cartId valid_request = CheckoutRequest.cartId other_request"
    by (simp add: request_cartIds)
  note hit = idempotent_checkout [OF p v, where w = "[(CART_ID, first_order)]",
      THEN conjunct1, rule_format, OF g]
  note two = idempotent_checkout [OF p v, where w = "[(CART_ID, first_order)]",
      THEN conjunct2, rule_format, OF conjI [OF p1 conjI [OF v1 c]],
      of fixture_uuid fixture_now "[]" fixture_uuid_2 fixture_now]
  from p v g hit p1 v1 c two show ?thesis by (intro conjI)
qed


text \<open>
  C6. When the conditional write is refused and the read that follows finds no record,
  \<^verbatim>\<open>createOrder\<close> throws after that one write and one read, with no further attempt. Every
  exception thrown after the validation, this one included, makes the handler answer 500
  with error \<^verbatim>\<open>INTERNAL_ERROR\<close> and the fixed message; the text of the exception goes to
  the log line only.
\<close>

theorem lost_record_is_internal_error:
  assumes p: "JSON_parse P (case event_body of None \<Rightarrow> [] | Some s \<Rightarrow> s) = Some b"
    and v: "validateRequest b = Ok_true req"
  shows "(\<forall>ord w0 m w1 w2.
            send_Put P ord w0 = (Inl (ConditionalCheckFailedException m), w1) \<and>
            send_Get P (Order.cartId ord) w1 = (Inr None, w2) \<longrightarrow>
            createOrder P ord w0 =
              (Inl (Error (''Idempotency check failed: order for cartId ''
                           @ Order.cartId ord @ '' not found after conflict'')),
               w2,
               [Client_Put ord (Inl (ConditionalCheckFailedException m)),
                Client_Get (Order.cartId ord) (Inr None)])) \<and>
         (\<forall>err w' evs.
            checkout P req w = (Inl err, w', evs) \<longrightarrow>
            handler P event_body w =
              (\<lparr>statusCode = 500, headers = [(''Content-Type'', ''application/json'')],
                body = Error_body ''INTERNAL_ERROR'' ''An unexpected error occurred''\<rparr>,
               w', evs @ [log_error (CheckoutRequest.cartId req) err])) \<and>
         (\<forall>w1 uuid w2 now w3 m w4 w5.
            send_Get P (CheckoutRequest.cartId req) w = (Inr None, w1) \<and>
            randomUUID P w1 = (uuid, w2) \<and> toISOString_now P w2 = (now, w3) \<and>
            send_Put P (new_order req (calculatePricing (CheckoutRequest.items req)) uuid now) w3
              = (Inl (ConditionalCheckFailedException m), w4) \<and>
            send_Get P (CheckoutRequest.cartId req) w4 = (Inr None, w5) \<longrightarrow>
            handler P event_body w =
              (\<lparr>statusCode = 500, headers = [(''Content-Type'', ''application/json'')],
                body = Error_body ''INTERNAL_ERROR'' ''An unexpected error occurred''\<rparr>,
               w5,
               [log_checkout ''checkout.start'' (CheckoutRequest.cartId req) None,
                Client_Get (CheckoutRequest.cartId req) (Inr None),
                Client_Put (new_order req (calculatePricing (CheckoutRequest.items req)) uuid now)
                  (Inl (ConditionalCheckFailedException m)),
                Client_Get (CheckoutRequest.cartId req) (Inr None),
                log_error (CheckoutRequest.cartId req)
                  (Error (''Idempotency check failed: order for cartId ''
                          @ CheckoutRequest.cartId req @ '' not found after conflict''))]))"
proof (intro conjI allI impI)
  fix ord w0 m w1 w2
  assume "send_Put P ord w0 = (Inl (ConditionalCheckFailedException m), w1) \<and>
          send_Get P (Order.cartId ord) w1 = (Inr None, w2)"
  then have "send_Put P ord w0 = (Inl (ConditionalCheckFailedException m), w1)"
    and "send_Get P (Order.cartId ord) w1 = (Inr None, w2)" by simp_all
  from createOrder_conflict [OF this]
  show "createOrder P ord w0 =
          (Inl (Error (''Idempotency check failed: order for cartId ''
                       @ Order.cartId ord @ '' not found after conflict'')),
           w2,
           [Client_Put ord (Inl (ConditionalCheckFailedException m)),
            Client_Get (Order.cartId ord) (Inr None)])"
    by simp
next
  fix err w' evs
  assume "checkout P req w = (Inl err, w', evs)"
  with handler_valid [OF p v, of w]
  show "handler P event_body w =
          (\<lparr>statusCode = 500, headers = [(''Content-Type'', ''application/json'')],
            body = Error_body ''INTERNAL_ERROR'' ''An unexpected error occurred''\<rparr>,
           w', evs @ [log_error (CheckoutRequest.cartId req) err])"
    by (simp add: internalError_def)
next
  fix w1 uuid w2 now w3 m w4 w5
  define ord where "ord = new_order req (calculatePricing (CheckoutRequest.items req)) uuid now"
  assume "send_Get P (CheckoutRequest.cartId req) w = (Inr None, w1) \<and>
          randomUUID P w1 = (uuid, w2) \<and> toISOString_now P w2 = (now, w3) \<and>
          send_Put P (new_order req (calculatePricing (CheckoutRequest.items req)) uuid now) w3
            = (Inl (ConditionalCheckFailedException m), w4) \<and>
          send_Get P (CheckoutRequest.cartId req) w4 = (Inr None, w5)"
  then have g: "send_Get P (CheckoutRequest.cartId req) w = (Inr None, w1)"
    and u: "randomUUID P w1 = (uuid, w2)" and n: "toISOString_now P w2 = (now, w3)"
    and put: "send_Put P ord w3 = (Inl (ConditionalCheckFailedException m), w4)"
    and g2: "send_Get P (Order.cartId ord) w4 = (Inr None, w5)"
    by (simp_all add: ord_def)
  from createOrder_conflict [OF put g2]
  have c: "createOrder P ord w3 =
             (Inl (Error (''Idempotency check failed: order for cartId ''
                          @ CheckoutRequest.cartId req @ '' not found after conflict'')),
              w5,
              [Client_Put ord (Inl (ConditionalCheckFailedException m)),
               Client_Get (CheckoutRequest.cartId req) (Inr None)])"
    by (simp add: ord_def)
  from checkout_probe_miss [OF g u n ord_def c] handler_valid [OF p v, of w]
  show "handler P event_body w =
          (\<lparr>statusCode = 500, headers = [(''Content-Type'', ''application/json'')],
            body = Error_body ''INTERNAL_ERROR'' ''An unexpected error occurred''\<rparr>,
           w5,
           [log_checkout ''checkout.start'' (CheckoutRequest.cartId req) None,
            Client_Get (CheckoutRequest.cartId req) (Inr None),
            Client_Put (new_order req (calculatePricing (CheckoutRequest.items req)) uuid now)
              (Inl (ConditionalCheckFailedException m)),
            Client_Get (CheckoutRequest.cartId req) (Inr None),
            log_error (CheckoutRequest.cartId req)
              (Error (''Idempotency check failed: order for cartId ''
                      @ CheckoutRequest.cartId req @ '' not found after conflict''))])"
    by (simp add: Let_def internalError_def ord_def)
qed

text \<open>The run of the handler on the table that loses its record.\<close>

theorem lost_record_is_internal_error_witness:
  "JSON_parse lost_record_platform (case Some body_AC6 of None \<Rightarrow> [] | Some s \<Rightarrow> s)
     = Some (request_body CART_ID CUSTOMER_ID VALID_ITEMS) \<and>
   validateRequest (request_body CART_ID CUSTOMER_ID VALID_ITEMS) = Ok_true valid_request \<and>
   send_Get lost_record_platform (CheckoutRequest.cartId valid_request) () = (Inr None, ()) \<and>
   send_Put lost_record_platform
     (new_order valid_request (calculatePricing (CheckoutRequest.items valid_request))
        fixture_uuid fixture_now) ()
     = (Inl (ConditionalCheckFailedException ''The conditional request failed''), ()) \<and>
   handler lost_record_platform (Some body_AC6) () =
     (\<lparr>statusCode = 500, headers = [(''Content-Type'', ''application/json'')],
       body = Error_body ''INTERNAL_ERROR'' ''An unexpected error occurred''\<rparr>,
      (),
      [log_checkout ''checkout.start'' (CheckoutRequest.cartId valid_request) None,
       Client_Get (CheckoutRequest.cartId valid_request) (Inr None),
       Client_Put (new_order valid_request
                     (calculatePricing (CheckoutRequest.items valid_request))
                     fixture_uuid fixture_now)
         (Inl (ConditionalCheckFailedException ''The conditional request failed'')),
       Client_Get (CheckoutRequest.cartId valid_request) (Inr None),
       log_error (CheckoutRequest.cartId valid_request)
         (Error (''Idempotency check failed: order for cartId ''
                 @ CheckoutRequest.cartId valid_request @ '' not found after conflict''))])"
proof -
  have p: "JSON_parse lost_record_platform (case Some body_AC6 of None \<Rightarrow> [] | Some s \<Rightarrow> s)
             = Some (request_body CART_ID CUSTOMER_ID VALID_ITEMS)"
    by (simp add: fixture_platform_parse fixture_parse_bodies)
  note v = validateRequest_fixtures(1)
  have g: "send_Get lost_record_platform (CheckoutRequest.cartId valid_request) () = (Inr None, ())"
    by (simp add: lost_record_platform_def)
  have u: "randomUUID lost_record_platform () = (fixture_uuid, ())"
    and n: "toISOString_now lost_record_platform () = (fixture_now, ())"
    by (simp_all add: lost_record_platform_def)
  have w: "send_Put lost_record_platform
             (new_order valid_request (calculatePricing (CheckoutRequest.items valid_request))
                fixture_uuid fixture_now) ()
           = (Inl (ConditionalCheckFailedException ''The conditional request failed''), ())"
    by (simp add: lost_record_platform_def)
  note T = lost_record_is_internal_error [OF p v, where w = "()"]
  from T [THEN conjunct2, THEN conjunct2, rule_format,
          OF conjI [OF g conjI [OF u conjI [OF n conjI [OF w g]]]]]
  show ?thesis using p v g w by (intro conjI)
qed


end
